theory Spec2Isabelle
  imports Main "HOL-Library.Multiset"
begin

section \<open>Data model\<close>

text \<open>
  JavaScript strings are sequences of UTF-16 code units; the model uses \<open>string\<close> with one
  \<open>char\<close> per code unit, which covers the code units U+0000 to U+00FF. Numbers that
  hold \<open>Date.now()\<close> readings are integers. An optional field (\<open>subject?: string\<close>) is an
  \<open>option\<close>. Field names carry the prefix of their interface (\<open>m_\<close> for \<open>Message\<close>, \<open>s_\<close> for
  \<open>ChatSession\<close>), since both interfaces have an \<open>id\<close>.
\<close>

datatype Role = User | Assistant

datatype DifficultyLevel = Beginner | Intermediate | Advanced

record Message =
  m_id :: string
  m_content :: string
  m_role :: Role
  m_timestamp :: int
  m_isBookmarked :: "bool option"
  m_isError :: "bool option"

record ChatSession =
  s_id :: string
  s_title :: string
  s_messages :: "Message list"
  s_createdAt :: int
  s_updatedAt :: int
  s_subject :: "string option"
  s_difficulty :: "DifficultyLevel option"

text \<open>
  A value kept by the storage hook: the array of sessions, or any other value (the
  preferences object, the progress statistics, the bookmarks, or whatever a damaged entry
  under the sessions key parses to), which the model identifies by its JSON text. For the
  sessions key \<open>Array.isArray\<close> holds of the first form only.
\<close>

datatype stored = Sessions "ChatSession list" | Other string

section \<open>The browser's primitives\<close>

text \<open>
  \<open>localStorage\<close> is an association list from keys to strings. Whether the browser
  accepts new contents, and the exception \<open>setItem\<close> throws when it does not, is the
  browser's decision: the function \<open>refuses\<close> of the host. \<open>JSON.stringify\<close> and
  \<open>JSON.parse\<close> are host functions as well; \<open>parse\<close> returns \<open>None\<close> where
  \<open>JSON.parse\<close> throws.
\<close>

datatype storageError = QuotaExceededError | SecurityError

type_synonym storage = "(string \<times> string) list"

record host =
  stringify :: "stored \<Rightarrow> string"
  parse :: "string \<Rightarrow> stored option"
  refuses :: "storage \<Rightarrow> storageError option"

fun put :: "string \<Rightarrow> string \<Rightarrow> storage \<Rightarrow> storage" where
  "put k v [] = [(k, v)]"
| "put k v ((k', v') # kvs) = (if k' = k then (k, v) # kvs else (k', v') # put k v kvs)"

definition getItem :: "string \<Rightarrow> storage \<Rightarrow> string option" where
  "getItem k kvs = map_of kvs k"

definition setItem :: "host \<Rightarrow> string \<Rightarrow> string \<Rightarrow> storage \<Rightarrow> storageError + storage" where
  "setItem h k v kvs =
     (case refuses h (put k v kvs) of Some e \<Rightarrow> Inl e | None \<Rightarrow> Inr (put k v kvs))"

definition removeItem :: "string \<Rightarrow> storage \<Rightarrow> storage" where
  "removeItem k kvs = filter (\<lambda>p. fst p \<noteq> k) kvs"

text \<open>White space as \<open>String.prototype.trim\<close> and the regular expression class \<open>\s\<close> see it.\<close>

definition isSpace :: "char \<Rightarrow> bool" where
  "isSpace c = (let n = (of_char c :: int) in (9 \<le> n \<and> n \<le> 13) \<or> n = 32 \<or> n = 160)"

definition trim :: "string \<Rightarrow> string" where
  "trim s = rev (dropWhile isSpace (rev (dropWhile isSpace s)))"

text \<open>\<open>String.prototype.includes\<close>.\<close>

fun includes_str :: "string \<Rightarrow> string \<Rightarrow> bool" where
  "includes_str [] t = (t = [])"
| "includes_str (c # cs) t = (take (length t) (c # cs) = t \<or> includes_str cs t)"


section \<open>The storage hook\<close>

text \<open>
  One instance of \<open>useLocalStorage\<close> together with the browser's store. \<open>storedValue\<close> is
  the React state of the hook, \<open>isMounted\<close> the hook's ref, \<open>localStorage\<close> the store.
\<close>

record hook =
  storedValue :: stored
  isMounted :: bool
  localStorage :: storage

definition getInitialValue :: "host \<Rightarrow> string \<Rightarrow> stored \<Rightarrow> storage \<Rightarrow> stored" where
  "getInitialValue h key initialValue kvs =
     (case getItem key kvs of
        None \<Rightarrow> initialValue
      | Some item \<Rightarrow>
          if item = [] then initialValue
          else (case parse h item of None \<Rightarrow> initialValue | Some v \<Rightarrow> v))"

text \<open>
  \<open>handleQuotaExceeded\<close>: for the sessions key and an array of more than ten sessions, the
  array is sorted by \<open>updatedAt\<close>, newest first (\<open>Array.prototype.sort\<close> is stable), cut to
  ten and written; an exception of that write is caught and logged. In every other case
  the progress statistics are removed. The function returns after either step.
\<close>

definition isArray :: "stored \<Rightarrow> bool" where
  "isArray v = (case v of Sessions ss \<Rightarrow> True | Other t \<Rightarrow> False)"

definition elements :: "stored \<Rightarrow> ChatSession list" where
  "elements v = (case v of Sessions ss \<Rightarrow> ss | Other t \<Rightarrow> [])"

definition sortedSessions :: "ChatSession list \<Rightarrow> ChatSession list" where
  "sortedSessions ss = sort_key (\<lambda>s. - s_updatedAt s) ss"

definition trimmedSessions :: "ChatSession list \<Rightarrow> ChatSession list" where
  "trimmedSessions ss = take 10 (sortedSessions ss)"

definition handleQuotaExceeded :: "host \<Rightarrow> string \<Rightarrow> stored \<Rightarrow> storage \<Rightarrow> storage" where
  "handleQuotaExceeded h key v kvs =
     (if key = ''studypal_sessions'' \<and> isArray v \<and> length (elements v) > 10
      then (case setItem h key (stringify h (Sessions (trimmedSessions (elements v)))) kvs of
              Inr kvs' \<Rightarrow> kvs'
            | Inl e \<Rightarrow> kvs)
      else removeItem ''studypal_progress'' kvs)"

text \<open>
  \<open>setValue\<close> as one render of the hook created it: \<open>captured\<close> is the \<open>storedValue\<close> of
  that render, to which a functional update is applied (a plain value is the constant
  function). Nothing happens when the new value serialises like the captured one.
  Otherwise the state is set and, once the hook is mounted, the value is written at once;
  a quota error goes to \<open>handleQuotaExceeded\<close>, any other error is logged.
\<close>

definition setValue :: "host \<Rightarrow> string \<Rightarrow> stored \<Rightarrow> (stored \<Rightarrow> stored) \<Rightarrow> hook \<Rightarrow> hook" where
  "setValue h key captured val k =
     (let valueToStore = val captured
      in if stringify h valueToStore = stringify h captured then k
         else
           (let k' = k\<lparr>storedValue := valueToStore\<rparr>
            in if isMounted k'
               then (case setItem h key (stringify h valueToStore) (localStorage k') of
                       Inr kvs \<Rightarrow> k'\<lparr>localStorage := kvs\<rparr>
                     | Inl QuotaExceededError \<Rightarrow>
                         k'\<lparr>localStorage := handleQuotaExceeded h key valueToStore (localStorage k')\<rparr>
                     | Inl SecurityError \<Rightarrow> k')
               else k'))"

text \<open>
  The effect that synchronises the store with the state runs after a render in which
  \<open>storedValue\<close> changed, and once after the first render, where it only sets the ref.
  Its check of the sessions (an \<open>id\<close> that is a string, \<open>messages\<close> that is an array) holds of
  every \<open>ChatSession\<close> of the model. An exception of its write is logged.
\<close>

definition syncEffect :: "host \<Rightarrow> string \<Rightarrow> hook \<Rightarrow> hook" where
  "syncEffect h key k =
     (if \<not> isMounted k then k\<lparr>isMounted := True\<rparr>
      else (case setItem h key (stringify h (storedValue k)) (localStorage k) of
              Inr kvs \<Rightarrow> k\<lparr>localStorage := kvs\<rparr>
            | Inl e \<Rightarrow> k))"

text \<open>
  Mounting the hook: the state starts from \<open>getInitialValue\<close> and the first run of the
  effect follows.
\<close>

definition mount :: "host \<Rightarrow> string \<Rightarrow> stored \<Rightarrow> storage \<Rightarrow> hook" where
  "mount h key initialValue kvs =
     syncEffect h key
       \<lparr>storedValue = getInitialValue h key initialValue kvs, isMounted = False,
        localStorage = kvs\<rparr>"


section \<open>A concrete browser\<close>

text \<open>
  For running the model on concrete inputs: the text that \<open>JSON.stringify\<close> produces for
  the values of the data model (the keys of an object in the order in which the code
  creates them, an absent optional field left out), and a store that refuses contents of
  more than a given number of code units.
\<close>

definition digit :: "int \<Rightarrow> char" where
  "digit d = char_of (48 + d)"

function decimal :: "int \<Rightarrow> string" where
  "decimal n = (if n < 10 then [digit n] else decimal (n div 10) @ [digit (n mod 10)])"
  by pat_completeness auto
termination
  by (relation "measure nat") auto

declare decimal.simps [simp del]

definition number :: "int \<Rightarrow> string" where
  "number i = (if i < 0 then CHR ''-'' # decimal (- i) else decimal i)"

definition hexDigit :: "int \<Rightarrow> char" where
  "hexDigit d = (if d < 10 then char_of (48 + d) else char_of (87 + d))"

definition escape :: "char \<Rightarrow> string" where
  "escape c =
     (let n = (of_char c :: int)
      in if n = 34 then [CHR 0x5C, CHR 0x22]
         else if n = 92 then [CHR 0x5C, CHR 0x5C]
         else if n = 8 then [CHR 0x5C, CHR ''b'']
         else if n = 9 then [CHR 0x5C, CHR ''t'']
         else if n = 10 then [CHR 0x5C, CHR ''n'']
         else if n = 12 then [CHR 0x5C, CHR ''f'']
         else if n = 13 then [CHR 0x5C, CHR ''r'']
         else if n < 32 then [CHR 0x5C, CHR ''u'', CHR ''0'', CHR ''0'', hexDigit (n div 16), hexDigit (n mod 16)]
         else [c])"

definition quote :: "string \<Rightarrow> string" where
  "quote s = CHR 0x22 # concat (map escape s) @ [CHR 0x22]"

fun commaSep :: "string list \<Rightarrow> string" where
  "commaSep [] = []"
| "commaSep [x] = x"
| "commaSep (x # y # ys) = x @ '','' @ commaSep (y # ys)"

definition member :: "string \<Rightarrow> string \<Rightarrow> string" where
  "member k v = quote k @ '':'' @ v"

definition optional :: "string \<Rightarrow> ('a \<Rightarrow> string) \<Rightarrow> 'a option \<Rightarrow> string list" where
  "optional k f x = (case x of None \<Rightarrow> [] | Some v \<Rightarrow> [member k (f v)])"

definition boolean :: "bool \<Rightarrow> string" where
  "boolean b = (if b then ''true'' else ''false'')"

definition roleText :: "Role \<Rightarrow> string" where
  "roleText r = (case r of User \<Rightarrow> ''user'' | Assistant \<Rightarrow> ''assistant'')"

definition difficultyText :: "DifficultyLevel \<Rightarrow> string" where
  "difficultyText d =
     (case d of Beginner \<Rightarrow> ''beginner'' | Intermediate \<Rightarrow> ''intermediate'' | Advanced \<Rightarrow> ''advanced'')"

definition messageJSON :: "Message \<Rightarrow> string" where
  "messageJSON m =
     ''{'' @ commaSep
       ([member ''id'' (quote (m_id m)), member ''content'' (quote (m_content m)),
         member ''role'' (quote (roleText (m_role m))), member ''timestamp'' (number (m_timestamp m))]
        @ optional ''isError'' boolean (m_isError m)
        @ optional ''isBookmarked'' boolean (m_isBookmarked m)) @ ''}''"

definition sessionJSON :: "ChatSession \<Rightarrow> string" where
  "sessionJSON s =
     ''{'' @ commaSep
       ([member ''id'' (quote (s_id s)), member ''title'' (quote (s_title s)),
         member ''messages'' (''['' @ commaSep (map messageJSON (s_messages s)) @ '']''),
         member ''createdAt'' (number (s_createdAt s)), member ''updatedAt'' (number (s_updatedAt s))]
        @ optional ''subject'' quote (s_subject s)
        @ optional ''difficulty'' (\<lambda>d. quote (difficultyText d)) (s_difficulty s)) @ ''}''"

definition toJSON :: "stored \<Rightarrow> string" where
  "toJSON v = (case v of Sessions ss \<Rightarrow> ''['' @ commaSep (map sessionJSON ss) @ '']'' | Other t \<Rightarrow> t)"

definition storedSize :: "storage \<Rightarrow> nat" where
  "storedSize kvs = sum_list (map (\<lambda>p. length (fst p) + length (snd p)) kvs)"

definition browser :: "nat \<Rightarrow> host" where
  "browser quota =
     \<lparr>stringify = toJSON, parse = (\<lambda>t. Some (Other t)),
      refuses = (\<lambda>kvs. if storedSize kvs > quota then Some QuotaExceededError else None)\<rparr>"

section \<open>Keyword extraction\<close>

text \<open>
  \<open>extractKeywords\<close> of the utilities. On the code units U+0000 to U+00FF,
  \<open>toLowerCase\<close> maps the capital letters A to Z and the capital letters of the Latin-1
  supplement to their small letters. The class \<open>\w\<close> of a regular expression without the
  Unicode flag is the ASCII letters, the digits and the underscore.
\<close>

definition toLowerCaseChar :: "char \<Rightarrow> char" where
  "toLowerCaseChar c =
     (let n = (of_char c :: int)
      in if (65 \<le> n \<and> n \<le> 90) \<or> (192 \<le> n \<and> n \<le> 222 \<and> n \<noteq> 215) then char_of (n + 32) else c)"

definition toLowerCase :: "string \<Rightarrow> string" where
  "toLowerCase text = map toLowerCaseChar text"

definition isWordChar :: "char \<Rightarrow> bool" where
  "isWordChar c =
     (let n = (of_char c :: int)
      in (48 \<le> n \<and> n \<le> 57) \<or> (65 \<le> n \<and> n \<le> 90) \<or> n = 95 \<or> (97 \<le> n \<and> n \<le> 122))"

text \<open>
  \<open>split(/\s+/)\<close>: the pieces between the maximal runs of white space. A run at the start
  or at the end of the string gives an empty first or last piece, and the empty string
  gives one empty piece. \<open>piece\<close> holds the characters of the current piece in reverse;
  \<open>inRun\<close> tells that the last character read was white space.
\<close>

fun splitRuns :: "bool \<Rightarrow> string \<Rightarrow> string \<Rightarrow> string list" where
  "splitRuns inRun piece [] = [rev piece]"
| "splitRuns inRun piece (c # cs) =
     (if isSpace c
      then (if inRun then splitRuns True [] cs else rev piece # splitRuns True [] cs)
      else splitRuns False (c # piece) cs)"

definition split_ws :: "string \<Rightarrow> string list" where
  "split_ws s = splitRuns False [] s"

definition commonWords :: "string list" where
  "commonWords =
     [''the'', ''a'', ''an'', ''and'', ''or'', ''but'', ''in'', ''on'', ''at'', ''to'', ''for'', ''of'',
      ''with'', ''by'', ''is'', ''are'', ''was'', ''were'', ''be'', ''been'', ''have'', ''has'', ''had'',
      ''do'', ''does'', ''did'', ''will'', ''would'', ''could'', ''should'', ''may'', ''might'', ''can'',
      ''cannot'', ''this'', ''that'', ''these'', ''those'', ''i'', ''you'', ''he'', ''she'', ''it'', ''we'',
      ''they'', ''me'', ''him'', ''her'', ''us'', ''them'', ''my'', ''your'', ''his'', ''her'', ''its'',
      ''our'', ''their'']"

definition extractKeywords :: "string \<Rightarrow> string list" where
  "extractKeywords text =
     take 10
       (filter (\<lambda>word. length word > 3 \<and> word \<notin> set commonWords)
          (split_ws (filter (\<lambda>c. isWordChar c \<or> isSpace c) (toLowerCase text))))"

text \<open>The characters a keyword can consist of: small ASCII letters, digits, the underscore.\<close>

definition isKeywordChar :: "char \<Rightarrow> bool" where
  "isKeywordChar c =
     (let n = (of_char c :: int)
      in (48 \<le> n \<and> n \<le> 57) \<or> n = 95 \<or> (97 \<le> n \<and> n \<le> 122))"

text \<open>
  The tokens of a string in the usual sense: its maximal runs of characters that are not
  white space.
\<close>

function tokens :: "string \<Rightarrow> string list" where
  "tokens s =
     (case dropWhile isSpace s of
        [] \<Rightarrow> []
      | c # cs \<Rightarrow> takeWhile (\<lambda>x. \<not> isSpace x) (c # cs) # tokens (dropWhile (\<lambda>x. \<not> isSpace x) (c # cs)))"
  by pat_completeness auto
termination
proof (relation "measure length")
  show "wf (measure length)" by simp
next
  fix s :: string and c cs
  assume a: "dropWhile isSpace s = c # cs"
  have "length (dropWhile (\<lambda>x. \<not> isSpace x) (c # cs)) < length (c # cs)"
    using a hd_dropWhile [of isSpace s] length_dropWhile_le [of "\<lambda>x. \<not> isSpace x" cs]
    by (auto simp: less_Suc_eq_le)
  also have "length (c # cs) \<le> length s"
    using a length_dropWhile_le [of isSpace s] by simp
  finally show "(dropWhile (\<lambda>x. \<not> isSpace x) (c # cs), s) \<in> measure length" by simp
qed

declare tokens.simps [simp del]

text \<open>
  The extraction as the specification words it, for comparison: lower-casing, stripping
  punctuation, splitting on white space, discarding the stop words and the words of at
  most three characters, keeping the first ten. Punctuation is read generously: every
  character of U+0000 to U+00FF that is printable and neither a letter, a digit nor white
  space.
\<close>

definition isPunctuation :: "char \<Rightarrow> bool" where
  "isPunctuation c =
     (let n = (of_char c :: int)
      in (33 \<le> n \<and> n \<le> 47) \<or> (58 \<le> n \<and> n \<le> 64) \<or> (91 \<le> n \<and> n \<le> 96)
         \<or> (123 \<le> n \<and> n \<le> 126) \<or> (161 \<le> n \<and> n \<le> 191) \<or> n = 215 \<or> n = 247)"

definition extractKeywords_spec :: "string \<Rightarrow> string list" where
  "extractKeywords_spec text =
     take 10
       (filter (\<lambda>word. length word > 3 \<and> word \<notin> set commonWords)
          (tokens (filter (\<lambda>c. \<not> isPunctuation c) (toLowerCase text))))"

section \<open>The chat hook\<close>

text \<open>
  What \<open>fetch\<close> does on one call: the promise rejects with an exception, or it resolves
  with a response. A request that is aborted, by the timer of \<open>API_TIMEOUT\<close> milliseconds,
  by the next send or by the cleanup of the component, rejects, and so does every later
  call with the same signal. A response has a status, and a body that \<open>response.json()\<close> either
  cannot read or reads as an object of which the fields \<open>error\<close> and \<open>message\<close> matter.
  \<open>response.ok\<close> holds for the statuses 200 to 299.
\<close>

datatype jsError = Error string | TypeError string

fun errorText :: "jsError \<Rightarrow> string" where
  "errorText (Error t) = t"
| "errorText (TypeError t) = t"

fun isTypeError :: "jsError \<Rightarrow> bool" where
  "isTypeError (Error t) = False"
| "isTypeError (TypeError t) = True"

datatype replyBody = NoJSON | Body "string option" "string option"

record reply =
  r_status :: int
  r_body :: replyBody

definition ok :: "reply \<Rightarrow> bool" where
  "ok response = (200 \<le> r_status response \<and> r_status response \<le> 299)"

datatype fetched = Rejects jsError | Resolves reply

definition API_TIMEOUT :: int where
  "API_TIMEOUT = 30000"

definition MAX_RETRIES :: nat where
  "MAX_RETRIES = 2"

definition RETRY_DELAY :: int where
  "RETRY_DELAY = 2000"

text \<open>
  The effects of a send that the properties speak about, in the order in which they
  happen: a new value given to the state of the sessions, the wait that follows the
  creation of a session, a call of \<open>fetch\<close>, and the wait before a retry.
\<close>

datatype effect = SetSessions stored | Settle int | Fetch | Backoff int

text \<open>
  \<open>retryApiCall\<close>. The argument \<open>requestFn\<close> gives the outcome of each call by its
  number, counted from 0; since every call that does not return ends in the handler that
  increments \<open>attempts\<close>, this number is the value of \<open>attempts\<close> at the call. The result is
  the response or the exception that is thrown at the end, with the calls and waits made.
\<close>

function retryLoop ::
  "(nat \<Rightarrow> fetched) \<Rightarrow> nat \<Rightarrow> nat \<Rightarrow> jsError option \<Rightarrow> (jsError + reply) \<times> effect list" where
  "retryLoop requestFn maxRetries attempts lastError =
     (if attempts \<le> maxRetries
      then (case requestFn attempts of
              Resolves response \<Rightarrow> (Inr response, [Fetch])
            | Rejects err \<Rightarrow>
                (let attempts' = attempts + 1;
                     delay = (if attempts' \<le> maxRetries
                              then [Backoff (RETRY_DELAY * 2 ^ (attempts' - 1))] else []);
                     (result, rest) = retryLoop requestFn maxRetries attempts' (Some err)
                 in (result, Fetch # delay @ rest)))
      else (Inl (case lastError of
                   Some err \<Rightarrow> err
                 | None \<Rightarrow> Error ''Failed after multiple attempts''), []))"
  by pat_completeness auto
termination
  by (relation "measure (\<lambda>(requestFn, maxRetries, attempts, lastError). Suc maxRetries - attempts)") auto

declare retryLoop.simps [simp del]

definition retryApiCall :: "(nat \<Rightarrow> fetched) \<Rightarrow> nat \<Rightarrow> (jsError + reply) \<times> effect list" where
  "retryApiCall requestFn maxRetries = retryLoop requestFn maxRetries 0 None"

text \<open>
  What \<open>sendMessage\<close> makes of a response: the text of the assistant, or the exception it
  throws. A field passes a test such as \<open>if (data.error)\<close> when it is present and not the
  empty string.
\<close>

definition readResponse :: "reply \<Rightarrow> jsError + string" where
  "readResponse response =
     (if \<not> ok response
      then Inl (Error (case r_body response of
                         NoJSON \<Rightarrow> ''Server error: '' @ number (r_status response)
                       | Body err msg \<Rightarrow>
                           (case err of
                              None \<Rightarrow> ''Server error: '' @ number (r_status response)
                            | Some t \<Rightarrow> if t \<noteq> [] then t
                                        else ''Server error: '' @ number (r_status response))))
      else (case r_body response of
              NoJSON \<Rightarrow> Inl (Error ''Failed to parse server response'')
            | Body err msg \<Rightarrow>
                (case err of
                   Some t \<Rightarrow>
                     if t \<noteq> [] then Inl (Error t)
                     else (case msg of
                             None \<Rightarrow> Inl (Error ''Response missing message content'')
                           | Some a \<Rightarrow> if a \<noteq> [] then Inr a
                                       else Inl (Error ''Response missing message content''))
                 | None \<Rightarrow>
                     (case msg of
                        None \<Rightarrow> Inl (Error ''Response missing message content'')
                      | Some a \<Rightarrow> if a \<noteq> [] then Inr a
                                  else Inl (Error ''Response missing message content'')))))"

text \<open>
  The state of \<open>useChat\<close>: the storage hook of the sessions, the state variables, and the
  effects so far. The state variable \<open>error\<close> is the field \<open>chatError\<close>.
\<close>

record chat =
  sessionsHook :: hook
  currentSessionId :: "string option"
  isLoading :: bool
  chatError :: "string option"
  retryCount :: nat
  effects :: "effect list"

text \<open>
  A call of \<open>sendMessage\<close> runs in the closure of one render: \<open>sessions\<close>,
  \<open>currentSessionId\<close>, \<open>currentSession\<close> and \<open>setSessions\<close> are constants of that render, and
  \<open>setSessions\<close> is the \<open>setValue\<close> of that render, which applies an update function to the
  \<open>storedValue\<close> it captured. The handlers of the components call the \<open>sendMessage\<close> of the
  latest render, so the captured values are those of the state at the call.
\<close>

definition currentSession :: "chat \<Rightarrow> ChatSession option" where
  "currentSession c =
     (case storedValue (sessionsHook c) of
        Other t \<Rightarrow> None
      | Sessions ss \<Rightarrow>
          (case currentSessionId c of
             None \<Rightarrow> None
           | Some i \<Rightarrow> if i = [] then None else find (\<lambda>session. s_id session = i) ss))"

definition setSessions :: "host \<Rightarrow> stored \<Rightarrow> (stored \<Rightarrow> stored) \<Rightarrow> chat \<Rightarrow> chat" where
  "setSessions h captured val c =
     c\<lparr>sessionsHook := setValue h ''studypal_sessions'' captured val (sessionsHook c),
       effects := effects c @ (if stringify h (val captured) = stringify h captured then []
                               else [SetSessions (val captured)])\<rparr>"

text \<open>The title that a first message gives to a session.\<close>

definition firstTitle :: "string \<Rightarrow> string" where
  "firstTitle content = take 50 content @ (if length content > 50 then ''...'' else [])"

text \<open>The three update functions that \<open>sendMessage\<close> hands to \<open>setSessions\<close>.\<close>

definition addUserMessage ::
  "string \<Rightarrow> Message \<Rightarrow> string \<Rightarrow> int \<Rightarrow> string option \<Rightarrow> DifficultyLevel option \<Rightarrow> stored \<Rightarrow> stored" where
  "addUserMessage sessionId userMessage content timestamp subject difficulty prevSessions =
     (let fresh = \<lparr>s_id = sessionId, s_title = firstTitle content, s_messages = [userMessage],
                   s_createdAt = timestamp, s_updatedAt = timestamp, s_subject = subject,
                   s_difficulty = difficulty\<rparr>
      in case prevSessions of
           Other t \<Rightarrow> Sessions [fresh]
         | Sessions ss \<Rightarrow>
             if \<not> list_ex (\<lambda>s. s_id s = sessionId) ss then Sessions (fresh # ss)
             else Sessions
                    (map (\<lambda>session.
                            if s_id session = sessionId
                            then session\<lparr>s_messages := s_messages session @ [userMessage],
                                         s_updatedAt := timestamp,
                                         s_title := (if s_messages session = [] then firstTitle content
                                                     else s_title session)\<rparr>
                            else session) ss))"

definition hasUserMessage :: "Message \<Rightarrow> Message list \<Rightarrow> bool" where
  "hasUserMessage userMessage existingMessages =
     list_ex (\<lambda>msg. m_id msg = m_id userMessage
                     \<or> (m_role msg = User \<and> m_content msg = m_content userMessage)) existingMessages"

definition addAssistantMessage :: "string \<Rightarrow> Message \<Rightarrow> Message \<Rightarrow> int \<Rightarrow> stored \<Rightarrow> stored" where
  "addAssistantMessage sessionId userMessage assistantMessage now prevSessions =
     (case prevSessions of
        Other t \<Rightarrow> Sessions []
      | Sessions ss \<Rightarrow>
          if \<not> list_ex (\<lambda>s. s_id s = sessionId) ss then Sessions ss
          else Sessions
                 (map (\<lambda>session.
                         if s_id session = sessionId
                         then session\<lparr>s_messages :=
                                        s_messages session
                                        @ (if hasUserMessage userMessage (s_messages session) then []
                                           else [userMessage])
                                        @ [assistantMessage],
                                      s_updatedAt := now\<rparr>
                         else session) ss))"

definition addErrorMessage :: "string \<Rightarrow> Message \<Rightarrow> Message \<Rightarrow> int \<Rightarrow> stored \<Rightarrow> stored" where
  "addErrorMessage sessionId userMessage errorAssistantMessage now prevSessions =
     (case prevSessions of
        Other t \<Rightarrow> Sessions []
      | Sessions ss \<Rightarrow>
          Sessions
            (map (\<lambda>session.
                    if s_id session = sessionId
                    then session\<lparr>s_messages :=
                                   s_messages session
                                   @ (if hasUserMessage userMessage (s_messages session) then []
                                      else [userMessage])
                                   @ [errorAssistantMessage],
                                 s_updatedAt := now\<rparr>
                    else session) ss))"

text \<open>
  The values that one call of \<open>sendMessage\<close> takes from outside: the identifiers that
  \<open>generateId\<close> returns, the readings of \<open>Date.now()\<close>, and what \<open>fetch\<close> does.
\<close>

record env =
  newSessionId :: string
  sessionCreated :: int
  messageId :: string
  sent :: int
  makeRequest :: "nat \<Rightarrow> fetched"
  replyId :: string
  replied :: int
  updated :: int

text \<open>
  \<open>createNewSession\<close> as \<open>sendMessage\<close> calls it; the statistics it also updates live in
  another hook and are left out.
\<close>

definition createNewSession ::
  "host \<Rightarrow> env \<Rightarrow> stored \<Rightarrow> string option \<Rightarrow> DifficultyLevel option \<Rightarrow> chat \<Rightarrow> chat" where
  "createNewSession h e captured subject difficulty c =
     (let newSession = \<lparr>s_id = newSessionId e, s_title = ''New Chat'', s_messages = [],
                        s_createdAt = sessionCreated e, s_updatedAt = sessionCreated e,
                        s_subject = subject, s_difficulty = difficulty\<rparr>;
          c' = setSessions h captured (\<lambda>prevSessions. Sessions (newSession # elements prevSessions)) c
      in c'\<lparr>currentSessionId := Some (newSessionId e)\<rparr>)"

text \<open>
  \<open>sendMessage\<close>. Blank content returns at once. Otherwise the send resolves its session
  (the current one, or a new one followed by the wait of 50 ms), hands the update with the
  user message to \<open>setSessions\<close>, calls the endpoint through \<open>retryApiCall\<close>, and hands the
  update of the success branch or of the failure branch to \<open>setSessions\<close>. The abort of the
  previous request and the timers concern other sends and the outcomes of \<open>fetch\<close>; the
  update of the statistics in the success branch belongs to another hook. Both are left
  out.
\<close>

definition apology :: string where
  "apology = ''I apologize, but I encountered an error. Please try again or rephrase your question.''"

definition sendMessage ::
  "host \<Rightarrow> env \<Rightarrow> string \<Rightarrow> string option \<Rightarrow> DifficultyLevel option \<Rightarrow> chat \<Rightarrow> chat" where
  "sendMessage h e content subject difficulty c =
     (if trim content = [] then c
      else
        (let captured = storedValue (sessionsHook c);
             c0 = c\<lparr>retryCount := 0\<rparr>;
             (sessionId, sessionMessages, c1) =
               (case currentSession c of
                  Some session \<Rightarrow> (s_id session, s_messages session, c0)
                | None \<Rightarrow>
                    (let c' = createNewSession h e captured subject difficulty c0
                     in (newSessionId e, [], c'\<lparr>effects := effects c' @ [Settle 50]\<rparr>)));
             userMessage = \<lparr>m_id = messageId e, m_content = trim content, m_role = User,
                            m_timestamp = sent e, m_isBookmarked = None, m_isError = None\<rparr>;
             c2 = setSessions h captured
                    (addUserMessage sessionId userMessage content (sent e) subject difficulty) c1;
             c3 = c2\<lparr>isLoading := True, chatError := None\<rparr>;
             (result, calls) = retryApiCall (makeRequest e) MAX_RETRIES;
             c4 = c3\<lparr>effects := effects c3 @ calls\<rparr>;
             c5 = (case (case result of Inl err \<Rightarrow> Inl err | Inr response \<Rightarrow> readResponse response) of
                     Inr text \<Rightarrow>
                       setSessions h captured
                         (addAssistantMessage sessionId userMessage
                            \<lparr>m_id = replyId e, m_content = text, m_role = Assistant,
                             m_timestamp = replied e, m_isBookmarked = None, m_isError = None\<rparr>
                            (updated e)) c4
                   | Inl apiError \<Rightarrow>
                       (let c' = setSessions h captured
                                   (addErrorMessage sessionId userMessage
                                      \<lparr>m_id = replyId e, m_content = apology, m_role = Assistant,
                                       m_timestamp = replied e, m_isBookmarked = None,
                                       m_isError = Some True\<rparr>
                                      (updated e))
                                   (c4\<lparr>chatError := Some (errorText apiError)\<rparr>)
                        in if isTypeError apiError \<and> includes_str (errorText apiError) ''network''
                           then c'\<lparr>chatError := Some ''Network error. Please check your internet connection.''\<rparr>
                           else c'))
         in c5\<lparr>isLoading := False\<rparr>))"

text \<open>
  Names for the parts of a send, used to state its properties: the session it targets,
  the user message, the values that its update functions compute from the captured
  sessions, and how \<open>setSessions\<close> shows in the effects.
\<close>

definition target :: "env \<Rightarrow> chat \<Rightarrow> string" where
  "target e c = (case currentSession c of Some session \<Rightarrow> s_id session | None \<Rightarrow> newSessionId e)"

definition userMessageOf :: "env \<Rightarrow> string \<Rightarrow> Message" where
  "userMessageOf e content =
     \<lparr>m_id = messageId e, m_content = trim content, m_role = User, m_timestamp = sent e,
      m_isBookmarked = None, m_isError = None\<rparr>"

definition assistantMessageOf :: "env \<Rightarrow> string \<Rightarrow> Message" where
  "assistantMessageOf e text =
     \<lparr>m_id = replyId e, m_content = text, m_role = Assistant, m_timestamp = replied e,
      m_isBookmarked = None, m_isError = None\<rparr>"

definition errorMessageOf :: "env \<Rightarrow> Message" where
  "errorMessageOf e =
     \<lparr>m_id = replyId e, m_content = apology, m_role = Assistant, m_timestamp = replied e,
      m_isBookmarked = None, m_isError = Some True\<rparr>"

definition outcome :: "env \<Rightarrow> jsError + string" where
  "outcome e =
     (case fst (retryApiCall (makeRequest e) MAX_RETRIES) of
        Inl err \<Rightarrow> Inl err
      | Inr response \<Rightarrow> readResponse response)"

definition created :: "env \<Rightarrow> string option \<Rightarrow> DifficultyLevel option \<Rightarrow> chat \<Rightarrow> stored" where
  "created e subject difficulty c =
     Sessions (\<lparr>s_id = newSessionId e, s_title = ''New Chat'', s_messages = [],
                s_createdAt = sessionCreated e, s_updatedAt = sessionCreated e,
                s_subject = subject, s_difficulty = difficulty\<rparr>
               # elements (storedValue (sessionsHook c)))"

definition optimistic :: "env \<Rightarrow> string \<Rightarrow> string option \<Rightarrow> DifficultyLevel option \<Rightarrow> chat \<Rightarrow> stored" where
  "optimistic e content subject difficulty c =
     addUserMessage (target e c) (userMessageOf e content) content (sent e) subject difficulty
       (storedValue (sessionsHook c))"

definition settled :: "env \<Rightarrow> string \<Rightarrow> chat \<Rightarrow> stored" where
  "settled e content c =
     (case outcome e of
        Inr text \<Rightarrow>
          addAssistantMessage (target e c) (userMessageOf e content) (assistantMessageOf e text)
            (updated e) (storedValue (sessionsHook c))
      | Inl err \<Rightarrow>
          addErrorMessage (target e c) (userMessageOf e content) (errorMessageOf e)
            (updated e) (storedValue (sessionsHook c)))"

definition change :: "host \<Rightarrow> chat \<Rightarrow> stored \<Rightarrow> effect list" where
  "change h c v =
     (if stringify h v = stringify h (storedValue (sessionsHook c)) then [] else [SetSessions v])"

definition messagesOf :: "string \<Rightarrow> stored \<Rightarrow> Message list" where
  "messagesOf i v =
     (case find (\<lambda>session. s_id session = i) (elements v) of
        None \<Rightarrow> []
      | Some session \<Rightarrow> s_messages session)"

fun isNetwork :: "effect \<Rightarrow> bool" where
  "isNetwork Fetch = True"
| "isNetwork (Backoff ms) = True"
| "isNetwork (SetSessions v) = False"
| "isNetwork (Settle ms) = False"



definition titleOf :: "string \<Rightarrow> stored \<Rightarrow> string option" where
  "titleOf i v = map_option s_title (find (\<lambda>session. s_id session = i) (elements v))"

section \<open>Proxy endpoint: per-client rate limiting\<close>

text \<open>
  The route handler keeps a process-wide map from the client identifier to the number of
  requests counted in the current window and the time the window started. Times are
  \<open>Date.now()\<close> readings in milliseconds; the model takes each reading as an argument.
\<close>

definition RATE_LIMIT_WINDOW :: int where
  "RATE_LIMIT_WINDOW = 60 * 1000"

definition MAX_REQUESTS_PER_WINDOW :: nat where
  "MAX_REQUESTS_PER_WINDOW = 5"

record clientData =
  count :: nat
  timestamp :: int

type_synonym ipRequests = "string \<rightharpoonup> clientData"

text \<open>
  \<open>isRateLimited\<close> returns the verdict together with the updated map: a first request and a
  request after the window has passed both store a fresh entry with count 1 and pass;
  any other request increments the count and is limited when the new count exceeds the
  maximum.
\<close>

definition isRateLimited :: "string \<Rightarrow> int \<Rightarrow> ipRequests \<Rightarrow> bool \<times> ipRequests" where
  "isRateLimited ip now m =
     (case m ip of
        None \<Rightarrow> (False, m(ip \<mapsto> \<lparr>count = 1, timestamp = now\<rparr>))
      | Some cd \<Rightarrow>
          if now - timestamp cd > RATE_LIMIT_WINDOW
          then (False, m(ip \<mapsto> \<lparr>count = 1, timestamp = now\<rparr>))
          else let cd' = cd\<lparr>count := count cd + 1\<rparr>
               in (count cd' > MAX_REQUESTS_PER_WINDOW, m(ip \<mapsto> cd')))"

text \<open>
  The periodic cleanup (every five minutes) deletes the entries whose window started more
  than five windows before the time of the sweep.
\<close>

definition cleanup :: "int \<Rightarrow> ipRequests \<Rightarrow> ipRequests" where
  "cleanup now m =
     (\<lambda>ip. case m ip of
            None \<Rightarrow> None
          | Some cd \<Rightarrow> if now - timestamp cd > RATE_LIMIT_WINDOW * 5 then None else Some cd)"

text \<open>
  The handler \<open>POST\<close>. Its inputs are the \<open>x-forwarded-for\<close> header, the clock reading, the
  outcome of \<open>request.json()\<close>, whether the provider key is configured, the outcome of
  \<open>sendChatMessage\<close> (an error message or the reply) and the canned text that
  \<open>getFallbackResponse\<close> picks. The response is the status and the two fields of the JSON
  body.
\<close>

datatype payload =
    Unreadable
  | Payload "(string \<times> string) list option"

record call =
  forwardedFor :: "string option"
  arrival :: int
  json :: payload
  apiKeySet :: bool
  upstream :: "string + string"
  fallbackText :: string

record response =
  status :: int
  error :: "string option"
  message :: "string option"

definition clientId :: "string option \<Rightarrow> string" where
  "clientId h = (case h of None \<Rightarrow> ''unknown-ip'' | Some v \<Rightarrow> if v = [] then ''unknown-ip'' else v)"

definition POST :: "call \<Rightarrow> ipRequests \<Rightarrow> response \<times> ipRequests" where
  "POST c m =
     (let ip = clientId (forwardedFor c);
          (limited, m') = isRateLimited ip (arrival c) m
      in if limited
         then (\<lparr>status = 429, error = Some ''Rate limit exceeded. Please try again later.'',
                message = None\<rparr>, m')
         else
           (case json c of
              Unreadable \<Rightarrow>
                (\<lparr>status = 500, error = Some ''Internal server error'',
                  message = Some ''I'm having some technical difficulties right now. Please try again in a moment!''\<rparr>, m')
            | Payload msgs \<Rightarrow>
                if msgs = None \<or> msgs = Some []
                then (\<lparr>status = 400, error = Some ''Valid messages array is required'',
                       message = None\<rparr>, m')
                else if \<not> apiKeySet c
                then (\<lparr>status = 200, error = None, message = Some (fallbackText c)\<rparr>, m')
                else
                  (case upstream c of
                     Inr reply \<Rightarrow> (\<lparr>status = 200, error = None, message = Some reply\<rparr>, m')
                   | Inl errorMessage \<Rightarrow>
                       if includes_str errorMessage ''rate limit''
                          \<or> includes_str errorMessage ''too many requests''
                       then (\<lparr>status = 429,
                              error = Some ''Rate limit exceeded. Please try again in a moment.'',
                              message = None\<rparr>, m')
                       else (\<lparr>status = 503, error = Some ''AI service error'',
                              message = Some (fallbackText c)\<rparr>, m'))))"

text \<open>
  What happens to the map over time: a request handled by \<open>POST\<close>, or a sweep. \<open>serve\<close> runs
  a sequence of events and returns, in order, each request's client identifier with the
  response it received.
\<close>

datatype event = Request call | Sweep int

fun serve :: "event list \<Rightarrow> ipRequests \<Rightarrow> (string \<times> response) list \<times> ipRequests" where
  "serve [] m = ([], m)"
| "serve (Request c # es) m =
     (let (r, m') = POST c m; (rs, m'') = serve es m'
      in ((clientId (forwardedFor c), r) # rs, m''))"
| "serve (Sweep now # es) m = serve es (cleanup now m)"

fun callsOf :: "string \<Rightarrow> event list \<Rightarrow> call list" where
  "callsOf ip [] = []"
| "callsOf ip (Request c # es) =
     (if clientId (forwardedFor c) = ip then c # callsOf ip es else callsOf ip es)"
| "callsOf ip (Sweep now # es) = callsOf ip es"

fun sweepsOf :: "event list \<Rightarrow> int list" where
  "sweepsOf [] = []"
| "sweepsOf (Request c # es) = sweepsOf es"
| "sweepsOf (Sweep now # es) = now # sweepsOf es"

definition repliesTo :: "string \<Rightarrow> (string \<times> response) list \<Rightarrow> response list" where
  "repliesTo ip rs = map snd (filter (\<lambda>p. fst p = ip) rs)"

text \<open>The rejection that the handler's own limiter produces.\<close>

definition rejected :: "response \<Rightarrow> bool" where
  "rejected r \<longleftrightarrow> status r = 429 \<and> error r = Some ''Rate limit exceeded. Please try again later.''"

text \<open>A concrete run: one client sends six requests within a minute, another client and a sweep in between.\<close>

definition exCall :: "string \<Rightarrow> int \<Rightarrow> call" where
  "exCall ip t = \<lparr>forwardedFor = Some ip, arrival = t, json = Payload (Some [(''user'', ''hi'')]),
                  apiKeySet = False, upstream = Inr [], fallbackText = ''later''\<rparr>"

definition exEvents :: "event list" where
  "exEvents = [Request (exCall ''10.0.0.7'' 10000), Request (exCall ''10.0.0.9'' 15000),
               Request (exCall ''10.0.0.7'' 20000), Sweep 25000,
               Request (exCall ''10.0.0.7'' 30000), Request (exCall ''10.0.0.7'' 40000),
               Request (exCall ''10.0.0.7'' 60000)]"

section \<open>Concrete inputs for the storage hook\<close>

text \<open>
  Eleven sessions, not in order of their last update, written by a mounted hook into a
  store that takes 700 code units; and a store of 70 code units that holds the progress
  statistics when the bookmarks are written.
\<close>

definition exSession :: "int \<Rightarrow> ChatSession" where
  "exSession i =
     \<lparr>s_id = decimal i, s_title = ''t'', s_messages = [], s_createdAt = i, s_updatedAt = i,
      s_subject = None, s_difficulty = None\<rparr>"




text \<open>
  A store that holds two sessions as the hook wrote them, and a browser whose
  \<open>JSON.parse\<close> reads that text back.
\<close>

definition exPersisted :: storage where
  "exPersisted = [(''studypal_preferences'', ''{}''),
                  (''studypal_sessions'', toJSON (Sessions [exSession 2, exSession 1]))]"

definition exBrowser :: host where
  "exBrowser =
     \<lparr>stringify = toJSON,
      parse = (\<lambda>t. if t = toJSON (Sessions [exSession 2, exSession 1])
                    then Some (Sessions [exSession 2, exSession 1]) else Some (Other t)),
      refuses = (\<lambda>kvs. if storedSize kvs > 700 then Some QuotaExceededError else None)\<rparr>"

section \<open>Concrete inputs for the chat hook\<close>

text \<open>
  A session in which the user has answered ``yes'' once and the assistant has replied; it
  is the current session, and the store holds it.
\<close>

definition exMessage :: "string \<Rightarrow> string \<Rightarrow> Role \<Rightarrow> int \<Rightarrow> Message" where
  "exMessage i t r n =
     \<lparr>m_id = i, m_content = t, m_role = r, m_timestamp = n, m_isBookmarked = None, m_isError = None\<rparr>"

definition exTalk :: "Message list \<Rightarrow> int \<Rightarrow> ChatSession" where
  "exTalk ms n =
     \<lparr>s_id = ''s1'', s_title = ''yes'', s_messages = ms, s_createdAt = 1000, s_updatedAt = n,
      s_subject = None, s_difficulty = None\<rparr>"

definition exEarlier :: "Message list" where
  "exEarlier = [exMessage ''m1'' ''yes'' User 1000, exMessage ''m2'' ''Shall we go on?'' Assistant 1100]"

definition exChat :: chat where
  "exChat =
     \<lparr>sessionsHook = \<lparr>storedValue = Sessions [exTalk exEarlier 1100], isMounted = True,
                       localStorage = [(''studypal_sessions'', toJSON (Sessions [exTalk exEarlier 1100]))]\<rparr>,
      currentSessionId = Some ''s1'', isLoading = False, chatError = None, retryCount = 0,
      effects = []\<rparr>"

text \<open>
  The same hook with no session at all, as on a first visit.
\<close>

definition exEmptyChat :: chat where
  "exEmptyChat =
     \<lparr>sessionsHook = \<lparr>storedValue = Sessions [], isMounted = True, localStorage = []\<rparr>,
      currentSessionId = None, isLoading = False, chatError = None, retryCount = 0,
      effects = []\<rparr>"

text \<open>
  Three environments of a send: the network is down (every call of \<open>fetch\<close> rejects), the
  request was aborted, and the endpoint answers.
\<close>

definition exEnv :: "(nat \<Rightarrow> fetched) \<Rightarrow> env" where
  "exEnv f =
     \<lparr>newSessionId = ''s2'', sessionCreated = 1900, messageId = ''m3'', sent = 2000,
      makeRequest = f, replyId = ''m4'', replied = 9000, updated = 9001\<rparr>"

definition exOffline :: "nat \<Rightarrow> fetched" where
  "exOffline n = Rejects (TypeError ''Failed to fetch'')"


definition exAnswer :: "nat \<Rightarrow> fetched" where
  "exAnswer n = Resolves \<lparr>r_status = 200, r_body = Body None (Some ''Good.'')\<rparr>"

definition exLimited :: "nat \<Rightarrow> fetched" where
  "exLimited n = Resolves \<lparr>r_status = 429,
                             r_body = Body (Some ''Rate limit exceeded. Please try again later.'') None\<rparr>"

text \<open>A question of 57 characters, and the session that a send creates for a first message.\<close>

definition exLong :: string where
  "exLong = ''Explain photosynthesis in simple words for a ten year old''"

definition exFresh :: "string \<Rightarrow> string \<Rightarrow> ChatSession" where
  "exFresh title t =
     \<lparr>s_id = ''s2'', s_title = title, s_messages = [exMessage ''m3'' t User 2000],
      s_createdAt = 2000, s_updatedAt = 2000, s_subject = None, s_difficulty = None\<rparr>"

definition exNew :: ChatSession where
  "exNew =
     \<lparr>s_id = ''s2'', s_title = ''New Chat'', s_messages = [], s_createdAt = 1900,
      s_updatedAt = 1900, s_subject = None, s_difficulty = None\<rparr>"

section \<open>Keyword extraction: properties\<close>

lemma tokens_Nil: "tokens [] = []"
  by (simp add: tokens.simps)

lemma tokens_space: "isSpace c \<Longrightarrow> tokens (c # cs) = tokens cs"
  by (simp add: tokens.simps [of "c # cs"] tokens.simps [of cs])

lemma tokens_word:
  assumes "w \<noteq> []" and "\<forall>x \<in> set w. \<not> isSpace x" and "s = [] \<or> isSpace (hd s)"
  shows "tokens (w @ s) = w # tokens s"
proof -
  obtain c cs where w: "w = c # cs" using assms(1) by (cases w) auto
  have d: "dropWhile isSpace (w @ s) = w @ s"
    using assms(2) w by simp
  have t: "takeWhile (\<lambda>x. \<not> isSpace x) (w @ s) = w"
    using assms(2,3) by (cases s) (auto simp: takeWhile_append)
  have r: "dropWhile (\<lambda>x. \<not> isSpace x) (w @ s) = s"
    using assms(2,3) by (cases s) (auto simp: dropWhile_append)
  show ?thesis
    using d t r w by (subst tokens.simps) (simp add: w)
qed

lemma splitRuns_tokens:
  assumes "\<forall>x \<in> set piece. \<not> isSpace x" and "inRun \<longrightarrow> piece = []"
  shows "filter (\<lambda>w. w \<noteq> []) (splitRuns inRun piece s) = tokens (rev piece @ s)"
  using assms
proof (induction s arbitrary: inRun piece)
  case Nil
  show ?case
  proof (cases "piece = []")
    case True
    then show ?thesis by (simp add: tokens_Nil)
  next
    case False
    then show ?thesis
      using tokens_word [of "rev piece" "[]"] Nil.prems by (simp add: tokens_Nil)
  qed
next
  case (Cons c cs)
  show ?case
  proof (cases "isSpace c")
    case True
    have rest: "filter (\<lambda>w. w \<noteq> []) (splitRuns True [] cs) = tokens cs"
      using Cons.IH [of "[]" True] by simp
    show ?thesis
    proof (cases "piece = []")
      case True
      with \<open>isSpace c\<close> rest show ?thesis by (simp add: tokens_space)
    next
      case False
      then have "\<not> inRun" using Cons.prems by simp
      moreover have "tokens (rev piece @ c # cs) = rev piece # tokens (c # cs)"
        using tokens_word [of "rev piece" "c # cs"] False Cons.prems \<open>isSpace c\<close> by simp
      ultimately show ?thesis
        using \<open>isSpace c\<close> rest False by (simp add: tokens_space)
    qed
  next
    case False
    then show ?thesis
      using Cons.IH [of "c # piece" False] Cons.prems by simp
  qed
qed

lemma split_ws_tokens: "filter (\<lambda>w. w \<noteq> []) (split_ws s) = tokens s"
  using splitRuns_tokens [of "[]" False s] by (simp add: split_ws_def)

lemma filter_filter_implied:
  "(\<And>x. Q x \<Longrightarrow> R x) \<Longrightarrow> filter Q (filter R xs) = filter Q xs"
  by (induction xs) auto

lemma filter_long_split_ws:
  "filter (\<lambda>word. length word > 3 \<and> P word) (split_ws s)
     = filter (\<lambda>word. length word > 3 \<and> P word) (tokens s)"
proof -
  have "filter (\<lambda>word. length word > 3 \<and> P word) (filter (\<lambda>w. w \<noteq> []) (split_ws s))
          = filter (\<lambda>word. length word > 3 \<and> P word) (split_ws s)"
    by (rule filter_filter_implied) auto
  then show ?thesis by (simp add: split_ws_tokens)
qed

lemma lower_word_char:
  assumes "isWordChar (toLowerCaseChar c)"
  shows "isKeywordChar (toLowerCaseChar c)"
proof (cases "(65 \<le> (of_char c :: int) \<and> (of_char c :: int) \<le> 90)
              \<or> (192 \<le> (of_char c :: int) \<and> (of_char c :: int) \<le> 222 \<and> (of_char c :: int) \<noteq> 215)")
  case True
  then have l: "toLowerCaseChar c = char_of ((of_char c :: int) + 32)"
    by (simp add: toLowerCaseChar_def)
  have "((of_char c :: int) + 32) mod 256 = of_char c + 32"
    using True by (intro mod_pos_pos_trivial) auto
  then have "(of_char (toLowerCaseChar c) :: int) = of_char c + 32"
    unfolding l by simp
  then show ?thesis
    using assms True by (simp add: isWordChar_def isKeywordChar_def Let_def) linarith
next
  case False
  then have "toLowerCaseChar c = c"
    unfolding toLowerCaseChar_def Let_def by (simp only: if_False)
  then show ?thesis
    using assms False by (simp add: isWordChar_def isKeywordChar_def Let_def) linarith
qed

lemma set_dropWhile_subset: "set (dropWhile P xs) \<subseteq> set xs"
  by (auto dest: set_dropWhileD)

lemma set_takeWhile_subset: "set (takeWhile P xs) \<subseteq> set xs"
  by (auto dest: set_takeWhileD)

lemma tokens_chars: "word \<in> set (tokens s) \<Longrightarrow> set word \<subseteq> set s \<and> (\<forall>c \<in> set word. \<not> isSpace c)"
proof (induction s arbitrary: word rule: tokens.induct)
  case (1 s)
  show ?case
  proof (cases "dropWhile isSpace s")
    case Nil
    have "tokens s = []" by (subst tokens.simps) (simp only: Nil list.case)
    with "1.prems" show ?thesis by simp
  next
    case (Cons c cs)
    let ?w = "takeWhile (\<lambda>x. \<not> isSpace x) (c # cs)"
    let ?r = "dropWhile (\<lambda>x. \<not> isSpace x) (c # cs)"
    have sub: "set (c # cs) \<subseteq> set s"
      using set_dropWhile_subset [of isSpace s] unfolding Cons .
    have unfold: "tokens s = ?w # tokens ?r"
      by (subst tokens.simps) (simp only: Cons list.case)
    from "1.prems" have "word = ?w \<or> word \<in> set (tokens ?r)"
      unfolding unfold by simp
    then show ?thesis
    proof
      assume w: "word = ?w"
      have "set ?w \<subseteq> set (c # cs)" by (rule set_takeWhile_subset)
      moreover have "\<forall>x \<in> set ?w. \<not> isSpace x" by (auto dest: set_takeWhileD)
      ultimately show ?thesis using w sub by blast
    next
      assume "word \<in> set (tokens ?r)"
      then have "set word \<subseteq> set ?r \<and> (\<forall>c \<in> set word. \<not> isSpace c)"
        by (rule "1.IH" [OF Cons])
      moreover have "set ?r \<subseteq> set (c # cs)" by (rule set_dropWhile_subset)
      ultimately show ?thesis using sub by blast
    qed
  qed
qed


text \<open>
  C9, as the code has it. For every text, \<open>extractKeywords\<close> returns the result of:
  lower-casing the text, removing every character that is neither an ASCII letter, a
  digit, the underscore nor white space, taking the tokens between the runs of white
  space, discarding the stop words and the words of at most three characters, and keeping
  the first ten of what remains, in their order. The empty pieces that \<open>split\<close> produces at
  the ends of the string are among the discarded words. So there are at most ten
  keywords, and each consists of small ASCII letters, digits and underscores.
\<close>

theorem keywords_pipeline:
  "extractKeywords text
     = take 10 (filter (\<lambda>word. 3 < length word \<and> word \<notin> set commonWords)
                  (tokens (filter (\<lambda>c. isWordChar c \<or> isSpace c) (toLowerCase text))))
   \<and> length (extractKeywords text) \<le> 10
   \<and> (\<forall>word \<in> set (extractKeywords text).
         3 < length word \<and> word \<notin> set commonWords \<and> (\<forall>c \<in> set word. isKeywordChar c))"
proof -
  let ?clean = "filter (\<lambda>c. isWordChar c \<or> isSpace c) (toLowerCase text)"
  let ?keep = "\<lambda>word. 3 < length word \<and> word \<notin> set commonWords"
  have pipe: "extractKeywords text = take 10 (filter ?keep (tokens ?clean))"
    using filter_long_split_ws [of "\<lambda>word. word \<notin> set commonWords" ?clean]
    by (simp add: extractKeywords_def)
  have len: "length (extractKeywords text) \<le> 10"
    by (simp add: extractKeywords_def)
  have chars: "\<forall>c \<in> set word. isKeywordChar c"
    if "word \<in> set (tokens ?clean)" for word
  proof
    fix c assume c: "c \<in> set word"
    from tokens_chars [OF that] c have "c \<in> set ?clean" and "\<not> isSpace c" by auto
    then obtain d where "c = toLowerCaseChar d" and "isWordChar c"
      by (auto simp: toLowerCase_def)
    then show "isKeywordChar c" using lower_word_char by simp
  qed
  have "\<forall>word \<in> set (extractKeywords text).
         3 < length word \<and> word \<notin> set commonWords \<and> (\<forall>c \<in> set word. isKeywordChar c)"
  proof
    fix word assume "word \<in> set (extractKeywords text)"
    then have "word \<in> set (filter ?keep (tokens ?clean))"
      unfolding pipe by (rule in_set_takeD)
    then show "3 < length word \<and> word \<notin> set commonWords \<and> (\<forall>c \<in> set word. isKeywordChar c)"
      using chars by auto
  qed
  with pipe len show ?thesis by blast
qed

theorem keywords_pipeline_witness:
  "extractKeywords ''What is photosynthesis, and WHY does it matter?''
     = [''what'', ''photosynthesis'', ''matter'']
   \<and> list_all (\<lambda>word. 3 < length word \<and> word \<notin> set commonWords \<and> list_all isKeywordChar word)
        (extractKeywords ''What is photosynthesis, and WHY does it matter?'')"
proof -
  have e: "extractKeywords ''What is photosynthesis, and WHY does it matter?''
     = [''what'', ''photosynthesis'', ''matter'']"
    by code_simp
  have "\<forall>word \<in> set (extractKeywords ''What is photosynthesis, and WHY does it matter?'').
          3 < length word \<and> word \<notin> set commonWords \<and> (\<forall>c \<in> set word. isKeywordChar c)"
    using keywords_pipeline [of "''What is photosynthesis, and WHY does it matter?''"] by blast
  then have "list_all (\<lambda>word. 3 < length word \<and> word \<notin> set commonWords \<and> list_all isKeywordChar word)
        (extractKeywords ''What is photosynthesis, and WHY does it matter?'')"
    by (simp add: list_all_iff)
  with e show ?thesis by blast
qed


text \<open>
  The claim as stated strips punctuation. The underscore is punctuation and the code
  keeps it; the letter U+00F1 (n with tilde) is not punctuation and the code removes it.
\<close>

theorem keywords_counterexample:
  "extractKeywords ''snake_case rocks'' = [''snake_case'', ''rocks'']
   \<and> extractKeywords_spec ''snake_case rocks'' = [''snakecase'', ''rocks'']
   \<and> extractKeywords [CHR ''s'', CHR ''e'', CHR 0xF1, CHR ''o'', CHR ''r''] = [''seor'']
   \<and> extractKeywords_spec [CHR ''s'', CHR ''e'', CHR 0xF1, CHR ''o'', CHR ''r'']
       = [[CHR ''s'', CHR ''e'', CHR 0xF1, CHR ''o'', CHR ''r'']]"
  by code_simp

section \<open>Rate limiting: properties\<close>

lemma POST_map: "snd (POST c m) = snd (isRateLimited (clientId (forwardedFor c)) (arrival c) m)"
  by (simp add: POST_def Let_def split: prod.splits payload.splits sum.splits)

lemma POST_rejected:
  "rejected (fst (POST c m)) \<longleftrightarrow> fst (isRateLimited (clientId (forwardedFor c)) (arrival c) m)"
  by (simp add: POST_def Let_def rejected_def split: prod.splits payload.splits sum.splits)

lemma isRateLimited_other:
  "ip' \<noteq> ip \<Longrightarrow> snd (isRateLimited ip' now m) ip = m ip"
  by (simp add: isRateLimited_def Let_def split: option.splits)

lemma isRateLimited_open:
  "m ip = None \<or> (\<exists>cd. m ip = Some cd \<and> now - timestamp cd > RATE_LIMIT_WINDOW) \<Longrightarrow>
   isRateLimited ip now m = (False, m(ip \<mapsto> \<lparr>count = 1, timestamp = now\<rparr>))"
  by (auto simp: isRateLimited_def)

lemma isRateLimited_within:
  "m ip = Some \<lparr>count = n, timestamp = t\<rparr> \<Longrightarrow> now - t \<le> RATE_LIMIT_WINDOW \<Longrightarrow>
   isRateLimited ip now m = (MAX_REQUESTS_PER_WINDOW < Suc n, m(ip \<mapsto> \<lparr>count = Suc n, timestamp = t\<rparr>))"
  by (simp add: isRateLimited_def Let_def)

lemma cleanup_keeps:
  "m ip = Some cd \<Longrightarrow> now - timestamp cd \<le> RATE_LIMIT_WINDOW * 5 \<Longrightarrow> cleanup now m ip = Some cd"
  by (simp add: cleanup_def)

lemma serve_window:
  "m ip = Some \<lparr>count = n, timestamp = t\<rparr> \<Longrightarrow>
   \<forall>c \<in> set (callsOf ip es). arrival c - t \<le> RATE_LIMIT_WINDOW \<Longrightarrow>
   \<forall>s \<in> set (sweepsOf es). s - t \<le> RATE_LIMIT_WINDOW * 5 \<Longrightarrow>
   map rejected (repliesTo ip (fst (serve es m)))
     = map (\<lambda>k. MAX_REQUESTS_PER_WINDOW < Suc n + k) [0 ..< length (callsOf ip es)]
   \<and> snd (serve es m) ip = Some \<lparr>count = n + length (callsOf ip es), timestamp = t\<rparr>"
proof (induction es arbitrary: m n)
  case Nil
  then show ?case by (simp add: repliesTo_def)
next
  case (Cons e es)
  show ?case
  proof (cases e)
    case (Request c)
    obtain r m' where pm: "POST c m = (r, m')" by (cases "POST c m")
    have m': "m' = snd (isRateLimited (clientId (forwardedFor c)) (arrival c) m)"
      using POST_map [of c m] pm by simp
    have r: "rejected r = fst (isRateLimited (clientId (forwardedFor c)) (arrival c) m)"
      using POST_rejected [of c m] pm by simp
    show ?thesis
    proof (cases "clientId (forwardedFor c) = ip")
      case True
      from Cons.prems Request True have near: "arrival c - t \<le> RATE_LIMIT_WINDOW" by simp
      have step: "isRateLimited ip (arrival c) m
                  = (MAX_REQUESTS_PER_WINDOW < Suc n, m(ip \<mapsto> \<lparr>count = Suc n, timestamp = t\<rparr>))"
        using isRateLimited_within [of m ip n t "arrival c"] Cons.prems(1) near by simp
      have mip: "m' ip = Some \<lparr>count = Suc n, timestamp = t\<rparr>"
        using m' True step by simp
      have IH: "map rejected (repliesTo ip (fst (serve es m')))
                  = map (\<lambda>k. MAX_REQUESTS_PER_WINDOW < Suc (Suc n) + k) [0 ..< length (callsOf ip es)]
                \<and> snd (serve es m') ip = Some \<lparr>count = Suc n + length (callsOf ip es), timestamp = t\<rparr>"
        using Cons.IH [of m' "Suc n"] mip Cons.prems Request True by simp
      have rr: "rejected r = (MAX_REQUESTS_PER_WINDOW < Suc n)"
        using r True step by simp
      show ?thesis
        using IH rr Request True pm
        by (auto simp add: repliesTo_def map_upt_Suc split: prod.splits simp del: upt_Suc)
    next
      case False
      have mip: "m' ip = Some \<lparr>count = n, timestamp = t\<rparr>"
        using m' False isRateLimited_other [of "clientId (forwardedFor c)" ip] Cons.prems(1) by simp
      have IH: "map rejected (repliesTo ip (fst (serve es m')))
                  = map (\<lambda>k. MAX_REQUESTS_PER_WINDOW < Suc n + k) [0 ..< length (callsOf ip es)]
                \<and> snd (serve es m') ip = Some \<lparr>count = n + length (callsOf ip es), timestamp = t\<rparr>"
        using Cons.IH [of m' n] mip Cons.prems Request False by simp
      show ?thesis
        using IH Request False pm
        by (auto simp add: repliesTo_def split: prod.splits)
    qed
  next
    case (Sweep s)
    from Cons.prems Sweep have "s - t \<le> RATE_LIMIT_WINDOW * 5" by simp
    then have mip: "cleanup s m ip = Some \<lparr>count = n, timestamp = t\<rparr>"
      using cleanup_keeps [of m ip "\<lparr>count = n, timestamp = t\<rparr>" s] Cons.prems(1) by simp
    show ?thesis
      using Cons.IH [of "cleanup s m" n] mip Cons.prems Sweep by simp
  qed
qed

text \<open>
  C4: let a request of a client open a window (the client has no entry, or its entry is
  older than 60 s). Whatever other clients send and whenever the sweep runs in between,
  the \<open>k\<close>-th request of the client counted in that window is rejected with status 429
  exactly when \<open>k > 5\<close>: of six requests within the window the first five pass the limiter
  and the sixth is rejected. A request of the client that arrives more than 60 s after
  the start of the window passes and leaves the entry with count 1 and its own arrival time.
\<close>

theorem rate_limit_window:
  assumes "clientId (forwardedFor c1) = ip"
    and "m ip = None \<or> (\<exists>cd. m ip = Some cd \<and> arrival c1 - timestamp cd > RATE_LIMIT_WINDOW)"
    and "\<forall>c \<in> set (callsOf ip es). arrival c - arrival c1 \<le> RATE_LIMIT_WINDOW"
    and "\<forall>s \<in> set (sweepsOf es). s - arrival c1 \<le> RATE_LIMIT_WINDOW * 5"
    and "clientId (forwardedFor c') = ip"
    and "arrival c' - arrival c1 > RATE_LIMIT_WINDOW"
  shows "map rejected (repliesTo ip (fst (serve (Request c1 # es) m)))
           = map (\<lambda>k. 5 < k) [1 ..< length (callsOf ip es) + 2]
         \<and> \<not> rejected (fst (POST c' (snd (serve (Request c1 # es) m))))
         \<and> snd (POST c' (snd (serve (Request c1 # es) m))) ip
             = Some \<lparr>count = 1, timestamp = arrival c'\<rparr>"
proof -
  let ?t = "arrival c1"
  let ?m1 = "m(ip \<mapsto> \<lparr>count = 1, timestamp = ?t\<rparr>)"
  have first: "isRateLimited ip ?t m = (False, ?m1)"
    using isRateLimited_open [of m ip ?t] assms(2) by simp
  have p1: "snd (POST c1 m) = ?m1"
    using POST_map [of c1 m] assms(1) first by simp
  have r1: "\<not> rejected (fst (POST c1 m))"
    using POST_rejected [of c1 m] assms(1) first by simp
  have m1: "?m1 ip = Some \<lparr>count = 1, timestamp = ?t\<rparr>" by simp
  have rest: "map rejected (repliesTo ip (fst (serve es ?m1)))
                = map (\<lambda>k. MAX_REQUESTS_PER_WINDOW < Suc 1 + k) [0 ..< length (callsOf ip es)]
              \<and> snd (serve es ?m1) ip = Some \<lparr>count = 1 + length (callsOf ip es), timestamp = ?t\<rparr>"
    using serve_window [of ?m1 ip 1 ?t es] m1 assms(3,4) by simp
  have shift: "map (\<lambda>k. (5::nat) < k) [1 ..< length (callsOf ip es) + 2]
                 = False # map (\<lambda>k. 5 < Suc (Suc k)) [0 ..< length (callsOf ip es)]"
    by (simp add: upt_conv_Cons map_Suc_upt [symmetric] del: upt_Suc)
  have whole: "serve (Request c1 # es) m
                 = ((ip, fst (POST c1 m)) # fst (serve es ?m1), snd (serve es ?m1))"
    using p1 assms(1) by (simp add: split_beta)
  have verdicts: "map rejected (repliesTo ip (fst (serve (Request c1 # es) m)))
                    = map (\<lambda>k. 5 < k) [1 ..< length (callsOf ip es) + 2]"
    unfolding whole shift using rest r1
    by (simp add: repliesTo_def MAX_REQUESTS_PER_WINDOW_def)
  let ?mf = "snd (serve (Request c1 # es) m)"
  have mf: "?mf ip = Some \<lparr>count = 1 + length (callsOf ip es), timestamp = ?t\<rparr>"
    unfolding whole using rest by simp
  have late: "isRateLimited ip (arrival c') ?mf
                = (False, ?mf(ip \<mapsto> \<lparr>count = 1, timestamp = arrival c'\<rparr>))"
    using isRateLimited_open [of ?mf ip "arrival c'"] mf assms(6) by simp
  have "\<not> rejected (fst (POST c' ?mf))"
    using POST_rejected [of c' ?mf] assms(5) late by simp
  moreover have "snd (POST c' ?mf) ip = Some \<lparr>count = 1, timestamp = arrival c'\<rparr>"
    using POST_map [of c' ?mf] assms(5) late by simp
  ultimately show ?thesis using verdicts by blast
qed

theorem rate_limit_window_witness:
  "clientId (forwardedFor (exCall ''10.0.0.7'' 0)) = ''10.0.0.7''
   \<and> (Map.empty :: ipRequests) ''10.0.0.7'' = None
   \<and> list_all (\<lambda>c. arrival c - 0 \<le> RATE_LIMIT_WINDOW) (callsOf ''10.0.0.7'' exEvents)
   \<and> list_all (\<lambda>s. s - 0 \<le> RATE_LIMIT_WINDOW * 5) (sweepsOf exEvents)
   \<and> 60001 - 0 > RATE_LIMIT_WINDOW
   \<and> map rejected (repliesTo ''10.0.0.7'' (fst (serve (Request (exCall ''10.0.0.7'' 0) # exEvents) Map.empty)))
       = [False, False, False, False, False, True]
   \<and> \<not> rejected (fst (POST (exCall ''10.0.0.7'' 60001)
                          (snd (serve (Request (exCall ''10.0.0.7'' 0) # exEvents) Map.empty))))
   \<and> snd (POST (exCall ''10.0.0.7'' 60001)
             (snd (serve (Request (exCall ''10.0.0.7'' 0) # exEvents) Map.empty))) ''10.0.0.7''
       = Some \<lparr>count = 1, timestamp = 60001\<rparr>"
proof -
  have a: "clientId (forwardedFor (exCall ''10.0.0.7'' 0)) = ''10.0.0.7''"
    by (simp add: clientId_def exCall_def)
  have calls: "callsOf ''10.0.0.7'' exEvents
                 = [exCall ''10.0.0.7'' 10000, exCall ''10.0.0.7'' 20000, exCall ''10.0.0.7'' 30000,
                    exCall ''10.0.0.7'' 40000, exCall ''10.0.0.7'' 60000]"
    by (simp add: exEvents_def clientId_def exCall_def)
  have b: "\<forall>c \<in> set (callsOf ''10.0.0.7'' exEvents). arrival c - arrival (exCall ''10.0.0.7'' 0) \<le> RATE_LIMIT_WINDOW"
    unfolding calls by (simp add: exCall_def RATE_LIMIT_WINDOW_def)
  have c: "\<forall>s \<in> set (sweepsOf exEvents). s - arrival (exCall ''10.0.0.7'' 0) \<le> RATE_LIMIT_WINDOW * 5"
    by (simp add: exEvents_def exCall_def RATE_LIMIT_WINDOW_def)
  have d: "clientId (forwardedFor (exCall ''10.0.0.7'' 60001)) = ''10.0.0.7''"
    by (simp add: clientId_def exCall_def)
  have e: "arrival (exCall ''10.0.0.7'' 60001) - arrival (exCall ''10.0.0.7'' 0) > RATE_LIMIT_WINDOW"
    by (simp add: exCall_def RATE_LIMIT_WINDOW_def)
  have n: "map (\<lambda>k. (5::nat) < k) [1 ..< length (callsOf ''10.0.0.7'' exEvents) + 2]
             = [False, False, False, False, False, True]"
    unfolding calls by (simp add: upt_conv_Cons del: upt_Suc)
  have t: "arrival (exCall ''10.0.0.7'' 60001) = 60001" by (simp add: exCall_def)
  show ?thesis
    using rate_limit_window [of "exCall ''10.0.0.7'' 0" "''10.0.0.7''" Map.empty exEvents
                                "exCall ''10.0.0.7'' 60001", OF a _ b c d e]
    unfolding n t using a b c
    by (simp add: exCall_def RATE_LIMIT_WINDOW_def list_all_iff)
qed

section \<open>The storage hook: properties\<close>

lemma put_same: "map_of kvs k = Some v \<Longrightarrow> put k v kvs = kvs"
  by (induction kvs) (auto split: if_splits)













lemma mount_fields:
  "storedValue (mount h key initialValue kvs) = getInitialValue h key initialValue kvs"
  "isMounted (mount h key initialValue kvs)"
  "localStorage (mount h key initialValue kvs) = kvs"
  by (simp_all add: mount_def syncEffect_def)

lemma setValue_unchanged: "val captured = captured \<Longrightarrow> setValue h key captured val k = k"
  by (simp add: setValue_def)

lemma syncEffect_same:
  assumes "isMounted k" and "getItem key (localStorage k) = Some (stringify h (storedValue k))"
  shows "localStorage (syncEffect h key k) = localStorage k"
  using assms put_same [of "localStorage k" key "stringify h (storedValue k)"]
  by (simp add: syncEffect_def setItem_def getItem_def split: option.splits)

text \<open>
  C8: a hook is mounted on a store and the value it loaded is saved again unchanged (as a
  value or through an update function that returns its argument). The store afterwards is
  the store before, so the JSON text under the key is the same text. If the
  synchronising effect runs after that, and \<open>JSON.parse\<close> followed by \<open>JSON.stringify\<close> gives
  back the text that was stored, the store is still the same.
\<close>

theorem reload_resave_identical:
  assumes "val (getInitialValue h key initialValue kvs) = getInitialValue h key initialValue kvs"
  shows "localStorage (setValue h key (storedValue (mount h key initialValue kvs)) val
                         (mount h key initialValue kvs)) = kvs
         \<and> (\<forall>item v. getItem key kvs = Some item \<and> item \<noteq> [] \<and> parse h item = Some v
                      \<and> stringify h v = item \<longrightarrow>
               localStorage (syncEffect h key
                  (setValue h key (storedValue (mount h key initialValue kvs)) val
                     (mount h key initialValue kvs))) = kvs)"
proof -
  let ?k = "mount h key initialValue kvs"
  have same: "setValue h key (storedValue ?k) val ?k = ?k"
    using assms by (simp add: setValue_unchanged mount_fields)
  have first: "localStorage (setValue h key (storedValue ?k) val ?k) = kvs"
    unfolding same by (simp add: mount_fields)
  have second: "localStorage (syncEffect h key ?k) = kvs"
    if "getItem key kvs = Some item" "item \<noteq> []" "parse h item = Some v" "stringify h v = item"
    for item v
  proof -
    have "storedValue ?k = v"
      using that by (simp add: mount_fields getInitialValue_def)
    then have "getItem key (localStorage ?k) = Some (stringify h (storedValue ?k))"
      using that by (simp add: mount_fields)
    then show ?thesis
      using syncEffect_same [of ?k key h] by (simp add: mount_fields)
  qed
  show ?thesis
    unfolding same using first second unfolding same by blast
qed

theorem reload_resave_identical_witness:
  "getInitialValue exBrowser ''studypal_sessions'' (Sessions []) exPersisted
     = Sessions [exSession 2, exSession 1]
   \<and> getItem ''studypal_sessions'' exPersisted = Some (toJSON (Sessions [exSession 2, exSession 1]))
   \<and> localStorage
        (setValue exBrowser ''studypal_sessions''
           (storedValue (mount exBrowser ''studypal_sessions'' (Sessions []) exPersisted)) (\<lambda>prev. prev)
           (mount exBrowser ''studypal_sessions'' (Sessions []) exPersisted)) = exPersisted
   \<and> localStorage
        (syncEffect exBrowser ''studypal_sessions''
          (setValue exBrowser ''studypal_sessions''
             (storedValue (mount exBrowser ''studypal_sessions'' (Sessions []) exPersisted)) (\<lambda>prev. prev)
             (mount exBrowser ''studypal_sessions'' (Sessions []) exPersisted))) = exPersisted"
proof -
  have g: "getItem ''studypal_sessions'' exPersisted = Some (toJSON (Sessions [exSession 2, exSession 1]))"
    by (simp add: getItem_def exPersisted_def)
  have ne: "toJSON (Sessions [exSession 2, exSession 1]) \<noteq> []"
    by code_simp
  have p: "parse exBrowser (toJSON (Sessions [exSession 2, exSession 1])) = Some (Sessions [exSession 2, exSession 1])"
    by (simp add: exBrowser_def)
  have s: "stringify exBrowser (Sessions [exSession 2, exSession 1]) = toJSON (Sessions [exSession 2, exSession 1])"
    by (simp add: exBrowser_def)
  have l: "getInitialValue exBrowser ''studypal_sessions'' (Sessions []) exPersisted
             = Sessions [exSession 2, exSession 1]"
    using g ne p by (simp add: getInitialValue_def)
  show ?thesis
    using reload_resave_identical [of "\<lambda>prev. prev" exBrowser "''studypal_sessions''" "Sessions []" exPersisted]
          g ne p s l
    by blast
qed

section \<open>The chat hook: properties\<close>

subsection \<open>What a send does, in terms of its parts\<close>

lemma setValue_storedValue:
  "storedValue (setValue h key captured val k)
     = (if stringify h (val captured) = stringify h captured then storedValue k else val captured)"
  by (simp add: setValue_def Let_def split: sum.splits storageError.splits)

lemma setValue_isMounted: "isMounted (setValue h key captured val k) = isMounted k"
  by (simp add: setValue_def Let_def split: sum.splits storageError.splits)

lemma setSessions_fields:
  "storedValue (sessionsHook (setSessions h captured val c))
     = (if stringify h (val captured) = stringify h captured then storedValue (sessionsHook c)
        else val captured)"
  "effects (setSessions h captured val c)
     = effects c @ (if stringify h (val captured) = stringify h captured then []
                    else [SetSessions (val captured)])"
  "currentSessionId (setSessions h captured val c) = currentSessionId c"
  "isLoading (setSessions h captured val c) = isLoading c"
  "chatError (setSessions h captured val c) = chatError c"
  "retryCount (setSessions h captured val c) = retryCount c"
  by (simp_all add: setSessions_def setValue_storedValue)

lemma sendMessage_blank: "trim content = [] \<Longrightarrow> sendMessage h e content subject difficulty c = c"
  by (simp add: sendMessage_def)

lemma sendMessage_effects_current:
  assumes "trim content \<noteq> []" and "currentSession c = Some session"
  shows "effects (sendMessage h e content subject difficulty c)
           = effects c @ change h c (optimistic e content subject difficulty c)
             @ snd (retryApiCall (makeRequest e) MAX_RETRIES)
             @ change h c (settled e content c)"
  using assms
  by (simp add: sendMessage_def Let_def setSessions_fields change_def optimistic_def settled_def
        target_def userMessageOf_def assistantMessageOf_def errorMessageOf_def outcome_def
        split: prod.splits sum.splits)

lemma sendMessage_effects_new:
  assumes "trim content \<noteq> []" and "currentSession c = None"
  shows "effects (sendMessage h e content subject difficulty c)
           = effects c @ change h c (created e subject difficulty c) @ [Settle 50]
             @ change h c (optimistic e content subject difficulty c)
             @ snd (retryApiCall (makeRequest e) MAX_RETRIES)
             @ change h c (settled e content c)"
  using assms
  by (simp add: sendMessage_def Let_def setSessions_fields change_def optimistic_def settled_def
        created_def createNewSession_def
        target_def userMessageOf_def assistantMessageOf_def errorMessageOf_def outcome_def
        split: prod.splits sum.splits)

lemma sendMessage_state:
  assumes "trim content \<noteq> []"
  shows "storedValue (sessionsHook (sendMessage h e content subject difficulty c))
           = (if change h c (settled e content c) \<noteq> [] then settled e content c
              else if change h c (optimistic e content subject difficulty c) \<noteq> []
                   then optimistic e content subject difficulty c
              else if currentSession c = None \<and> change h c (created e subject difficulty c) \<noteq> []
                   then created e subject difficulty c
              else storedValue (sessionsHook c))"
  using assms
  by (cases "currentSession c")
     (simp_all add: sendMessage_def Let_def setSessions_fields change_def optimistic_def settled_def
        created_def createNewSession_def
        target_def userMessageOf_def assistantMessageOf_def errorMessageOf_def outcome_def
        split: prod.splits sum.splits)

lemma sendMessage_chatError:
  assumes "trim content \<noteq> []"
  shows "chatError (sendMessage h e content subject difficulty c)
           = (case outcome e of
                Inr text \<Rightarrow> None
              | Inl err \<Rightarrow>
                  if isTypeError err \<and> includes_str (errorText err) ''network''
                  then Some ''Network error. Please check your internet connection.''
                  else Some (errorText err))"
  using assms
  by (cases "currentSession c")
     (auto simp add: sendMessage_def Let_def setSessions_fields outcome_def
        split: prod.splits sum.splits)

lemma retryApiCall_cases:
  "retryApiCall requestFn MAX_RETRIES =
     (case requestFn 0 of
        Resolves response \<Rightarrow> (Inr response, [Fetch])
      | Rejects err0 \<Rightarrow>
          (case requestFn 1 of
             Resolves response \<Rightarrow> (Inr response, [Fetch, Backoff 2000, Fetch])
           | Rejects err1 \<Rightarrow>
               (case requestFn 2 of
                  Resolves response \<Rightarrow>
                    (Inr response, [Fetch, Backoff 2000, Fetch, Backoff 4000, Fetch])
                | Rejects err2 \<Rightarrow>
                    (Inl err2, [Fetch, Backoff 2000, Fetch, Backoff 4000, Fetch]))))"
proof -
  have l3: "retryLoop requestFn (Suc (Suc 0)) (Suc (Suc (Suc 0))) (Some err) = (Inl err, [])" for err
    by (subst retryLoop.simps) simp
  have l2: "retryLoop requestFn (Suc (Suc 0)) (Suc (Suc 0)) last =
              (case requestFn (Suc (Suc 0)) of
                 Resolves response \<Rightarrow> (Inr response, [Fetch])
               | Rejects err \<Rightarrow> (Inl err, [Fetch]))" for last
    by (subst retryLoop.simps) (simp add: l3 split: fetched.splits)
  have l1: "retryLoop requestFn (Suc (Suc 0)) (Suc 0) last =
              (case requestFn (Suc 0) of
                 Resolves response \<Rightarrow> (Inr response, [Fetch])
               | Rejects err1 \<Rightarrow>
                   (case requestFn (Suc (Suc 0)) of
                      Resolves response \<Rightarrow> (Inr response, [Fetch, Backoff 4000, Fetch])
                    | Rejects err \<Rightarrow> (Inl err, [Fetch, Backoff 4000, Fetch])))" for last
    by (subst retryLoop.simps) (simp add: l2 RETRY_DELAY_def split: fetched.splits)
  have l0: "retryLoop requestFn (Suc (Suc 0)) 0 None =
     (case requestFn 0 of
        Resolves response \<Rightarrow> (Inr response, [Fetch])
      | Rejects err0 \<Rightarrow>
          (case requestFn (Suc 0) of
             Resolves response \<Rightarrow> (Inr response, [Fetch, Backoff 2000, Fetch])
           | Rejects err1 \<Rightarrow>
               (case requestFn (Suc (Suc 0)) of
                  Resolves response \<Rightarrow>
                    (Inr response, [Fetch, Backoff 2000, Fetch, Backoff 4000, Fetch])
                | Rejects err2 \<Rightarrow>
                    (Inl err2, [Fetch, Backoff 2000, Fetch, Backoff 4000, Fetch]))))"
    by (subst retryLoop.simps) (simp add: l1 RETRY_DELAY_def split: fetched.splits)
  show ?thesis
    unfolding retryApiCall_def MAX_RETRIES_def numeral_2_eq_2 One_nat_def by (rule l0)
qed

lemma network_change: "filter isNetwork (change h c v) = []"
  by (simp add: change_def)

lemma network_retryApiCall:
  "filter isNetwork (snd (retryApiCall requestFn MAX_RETRIES)) = snd (retryApiCall requestFn MAX_RETRIES)"
  by (simp add: retryApiCall_cases split: fetched.splits)

lemma sendMessage_network:
  assumes "trim content \<noteq> []"
  shows "filter isNetwork (effects (sendMessage h e content subject difficulty c))
           = filter isNetwork (effects c) @ snd (retryApiCall (makeRequest e) MAX_RETRIES)"
proof (cases "currentSession c")
  case None
  show ?thesis
    unfolding sendMessage_effects_new [OF assms None]
    by (simp add: network_change network_retryApiCall)
next
  case (Some session)
  show ?thesis
    unfolding sendMessage_effects_current [OF assms Some]
    by (simp add: network_change network_retryApiCall)
qed

lemma readResponse_not_ok:
  "\<not> ok response \<Longrightarrow> \<exists>t. readResponse response = Inl (Error t)"
  by (simp add: readResponse_def split: replyBody.splits option.splits)


lemma find_map_update:
  "find (\<lambda>s. s_id s = i) (map (\<lambda>s. if s_id s = i then f s else s) ss)
     = map_option f (find (\<lambda>s. s_id s = i) ss)"
  if "\<And>s. s_id (f s) = s_id s"
  using that by (induction ss) auto

lemma find_list_ex: "list_ex P xs \<longleftrightarrow> find P xs \<noteq> None"
  by (induction xs) auto

lemma currentSession_find:
  assumes "currentSession c = Some session"
  shows "find (\<lambda>s. s_id s = s_id session) (elements (storedValue (sessionsHook c))) = Some session"
proof -
  obtain ss i where ss: "storedValue (sessionsHook c) = Sessions ss"
    and f: "find (\<lambda>s. s_id s = i) ss = Some session"
    using assms
    by (auto simp: currentSession_def split: stored.splits option.splits if_splits)
  have "s_id session = i"
    using f by (induction ss) (auto split: if_splits)
  with f ss show ?thesis by (simp add: elements_def)
qed

lemma messagesOf_settled:
  assumes "currentSession c = Some session"
  shows "messagesOf (s_id session) (settled e content c)
           = s_messages session
             @ (if hasUserMessage (userMessageOf e content) (s_messages session) then []
                else [userMessageOf e content])
             @ [case outcome e of Inr text \<Rightarrow> assistantMessageOf e text | Inl err \<Rightarrow> errorMessageOf e]"
proof -
  obtain ss where ss: "storedValue (sessionsHook c) = Sessions ss"
    using assms by (auto simp: currentSession_def split: stored.splits)
  have f: "find (\<lambda>s. s_id s = s_id session) ss = Some session"
    using currentSession_find [OF assms] ss by (simp add: elements_def)
  then have ex: "list_ex (\<lambda>s. s_id s = s_id session) ss" by (simp add: find_list_ex)
  have tg: "target e c = s_id session" by (simp add: target_def assms)
  show ?thesis
    using f ex
    by (cases "outcome e")
       (simp_all add: settled_def tg ss addErrorMessage_def addAssistantMessage_def messagesOf_def
          elements_def find_map_update)
qed


text \<open>
  Where the text of a message was not sent before in the current session, the session
  ends with the user message followed by the reply (the assistant's text or the apology),
  provided that this last value does not serialise like the captured sessions.
\<close>

lemma fresh_text_kept:
  assumes "trim content \<noteq> []" and "currentSession c = Some session"
    and "\<not> hasUserMessage (userMessageOf e content) (s_messages session)"
    and "change h c (settled e content c) \<noteq> []"
  shows "messagesOf (s_id session)
           (storedValue (sessionsHook (sendMessage h e content subject difficulty c)))
           = s_messages session
             @ [userMessageOf e content,
                case outcome e of Inr text \<Rightarrow> assistantMessageOf e text | Inl err \<Rightarrow> errorMessageOf e]"
  using assms(3,4) messagesOf_settled [OF assms(2), of e content]
  by (simp add: sendMessage_state [OF assms(1)])


text \<open>
  Where the session holds a user message with the same text (or a message with the same
  identifier), the session ends with its old messages followed by the reply only.
\<close>

lemma repeated_text_dropped:
  assumes "trim content \<noteq> []" and "currentSession c = Some session"
    and "hasUserMessage (userMessageOf e content) (s_messages session)"
    and "change h c (settled e content c) \<noteq> []"
  shows "messagesOf (s_id session)
           (storedValue (sessionsHook (sendMessage h e content subject difficulty c)))
           = s_messages session
             @ [case outcome e of Inr text \<Rightarrow> assistantMessageOf e text | Inl err \<Rightarrow> errorMessageOf e]"
  using assms(3,4) messagesOf_settled [OF assms(2), of e content]
  by (simp add: sendMessage_state [OF assms(1)])

subsection \<open>The runs on the concrete inputs\<close>

lemma browser_stringify: "stringify (browser q) = toJSON"
  by (simp add: browser_def)

lemma exEnv_fields:
  "newSessionId (exEnv f) = ''s2''" "sessionCreated (exEnv f) = 1900" "messageId (exEnv f) = ''m3''"
  "sent (exEnv f) = 2000" "makeRequest (exEnv f) = f" "replyId (exEnv f) = ''m4''"
  "replied (exEnv f) = 9000" "updated (exEnv f) = 9001"
  by (simp_all add: exEnv_def)

lemma exChat_current: "currentSession exChat = Some (exTalk exEarlier 1100)"
  by (simp add: currentSession_def exChat_def exTalk_def)

lemma exChat_captured: "storedValue (sessionsHook exChat) = Sessions [exTalk exEarlier 1100]"
  by (simp add: exChat_def)

lemma exChat_target: "target e exChat = ''s1''"
  by (simp add: target_def exChat_current exTalk_def)

lemma yes_trim: "trim ''yes'' = ''yes''"
  by code_simp

lemma yes_optimistic:
  "optimistic (exEnv f) ''yes'' None None exChat
     = Sessions [exTalk (exEarlier @ [exMessage ''m3'' ''yes'' User 2000]) 2000]"
  by (simp add: optimistic_def exChat_target exChat_captured userMessageOf_def yes_trim
        addUserMessage_def exEnv_fields exTalk_def exMessage_def exEarlier_def)

lemma yes_repeated: "hasUserMessage (userMessageOf (exEnv f) ''yes'') exEarlier"
  by (simp add: hasUserMessage_def userMessageOf_def yes_trim exEarlier_def exMessage_def)

lemma offline_outcome: "outcome (exEnv exOffline) = Inl (TypeError ''Failed to fetch'')"
  by (simp add: outcome_def retryApiCall_cases exEnv_fields exOffline_def)

lemma answer_outcome: "outcome (exEnv exAnswer) = Inr ''Good.''"
  by (simp add: outcome_def retryApiCall_cases exEnv_fields exAnswer_def readResponse_def ok_def)

lemma yes_settled_offline:
  "settled (exEnv exOffline) ''yes'' exChat
     = Sessions [exTalk (exEarlier @ [errorMessageOf (exEnv exOffline)]) 9001]"
  using yes_repeated [of exOffline]
  by (simp add: settled_def offline_outcome exChat_target exChat_captured addErrorMessage_def
        exTalk_def exEnv_fields)

lemma yes_settled_answer:
  "settled (exEnv exAnswer) ''yes'' exChat
     = Sessions [exTalk (exEarlier @ [exMessage ''m4'' ''Good.'' Assistant 9000]) 9001]"
  using yes_repeated [of exAnswer]
  by (simp add: settled_def answer_outcome exChat_target exChat_captured addAssistantMessage_def
        assistantMessageOf_def exMessage_def exTalk_def exEnv_fields)

lemma yes_differs:
  "toJSON (Sessions [exTalk (exEarlier @ [exMessage ''m3'' ''yes'' User 2000]) 2000])
     \<noteq> toJSON (Sessions [exTalk exEarlier 1100])"
  "toJSON (Sessions [exTalk (exEarlier @ [errorMessageOf (exEnv exOffline)]) 9001])
     \<noteq> toJSON (Sessions [exTalk exEarlier 1100])"
  "toJSON (Sessions [exTalk (exEarlier @ [exMessage ''m4'' ''Good.'' Assistant 9000]) 9001])
     \<noteq> toJSON (Sessions [exTalk exEarlier 1100])"
  by code_simp+

lemma yes_changes:
  "change (browser 100000) exChat (Sessions [exTalk (exEarlier @ [exMessage ''m3'' ''yes'' User 2000]) 2000])
     = [SetSessions (Sessions [exTalk (exEarlier @ [exMessage ''m3'' ''yes'' User 2000]) 2000])]"
  "change (browser 100000) exChat (Sessions [exTalk (exEarlier @ [errorMessageOf (exEnv exOffline)]) 9001])
     = [SetSessions (Sessions [exTalk (exEarlier @ [errorMessageOf (exEnv exOffline)]) 9001])]"
  "change (browser 100000) exChat (Sessions [exTalk (exEarlier @ [exMessage ''m4'' ''Good.'' Assistant 9000]) 9001])
     = [SetSessions (Sessions [exTalk (exEarlier @ [exMessage ''m4'' ''Good.'' Assistant 9000]) 9001])]"
  using yes_differs by (simp_all add: change_def browser_stringify exChat_captured)

lemma exEmptyChat_current: "currentSession exEmptyChat = None"
  by (simp add: currentSession_def exEmptyChat_def)

lemma exEmptyChat_captured: "storedValue (sessionsHook exEmptyChat) = Sessions []"
  by (simp add: exEmptyChat_def)

lemma exEmptyChat_target: "target (exEnv f) exEmptyChat = ''s2''"
  by (simp add: target_def exEmptyChat_current exEnv_fields)

lemma question_trim: "trim ''What is 2+2?'' = ''What is 2+2?''"
  by code_simp

lemma exLong_trim: "trim exLong = exLong"
  by code_simp

lemma exLong_title: "firstTitle exLong = ''Explain photosynthesis in simple words for a ten y...''"
  by code_simp

lemma question_title: "firstTitle ''What is 2+2?'' = ''What is 2+2?''"
  by code_simp

lemma exEmptyChat_created: "created (exEnv f) None None exEmptyChat = Sessions [exNew]"
  by (simp add: created_def exEmptyChat_captured elements_def exEnv_fields exNew_def)

lemma question_optimistic:
  "optimistic (exEnv f) ''What is 2+2?'' None None exEmptyChat
     = Sessions [exFresh ''What is 2+2?'' ''What is 2+2?'']"
  by (simp add: optimistic_def exEmptyChat_target exEmptyChat_captured userMessageOf_def
        question_trim question_title addUserMessage_def exEnv_fields exFresh_def exMessage_def)

lemma exLong_optimistic:
  "optimistic (exEnv f) exLong None None exEmptyChat
     = Sessions [exFresh ''Explain photosynthesis in simple words for a ten y...'' exLong]"
  by (simp add: optimistic_def exEmptyChat_target exEmptyChat_captured userMessageOf_def
        exLong_trim exLong_title addUserMessage_def exEnv_fields exFresh_def exMessage_def)

lemma new_settled: "settled (exEnv f) content exEmptyChat = Sessions []"
  by (simp add: settled_def exEmptyChat_target exEmptyChat_captured addErrorMessage_def
        addAssistantMessage_def split: sum.splits)

lemma new_changes:
  "change (browser 100000) exEmptyChat (Sessions []) = []"
  "change (browser 100000) exEmptyChat (Sessions [exNew]) = [SetSessions (Sessions [exNew])]"
  "change (browser 100000) exEmptyChat (Sessions [exFresh ''What is 2+2?'' ''What is 2+2?''])
     = [SetSessions (Sessions [exFresh ''What is 2+2?'' ''What is 2+2?''])]"
  "change (browser 100000) exEmptyChat
      (Sessions [exFresh ''Explain photosynthesis in simple words for a ten y...'' exLong])
     = [SetSessions (Sessions [exFresh ''Explain photosynthesis in simple words for a ten y...'' exLong])]"
proof -
  have "toJSON (Sessions [exNew]) \<noteq> toJSON (Sessions [])" by code_simp
  moreover have "toJSON (Sessions [exFresh ''What is 2+2?'' ''What is 2+2?'']) \<noteq> toJSON (Sessions [])"
    by code_simp
  moreover have "toJSON (Sessions [exFresh ''Explain photosynthesis in simple words for a ten y...'' exLong])
                   \<noteq> toJSON (Sessions [])"
    by code_simp
  ultimately show
  "change (browser 100000) exEmptyChat (Sessions []) = []"
  "change (browser 100000) exEmptyChat (Sessions [exNew]) = [SetSessions (Sessions [exNew])]"
  "change (browser 100000) exEmptyChat (Sessions [exFresh ''What is 2+2?'' ''What is 2+2?''])
     = [SetSessions (Sessions [exFresh ''What is 2+2?'' ''What is 2+2?''])]"
  "change (browser 100000) exEmptyChat
      (Sessions [exFresh ''Explain photosynthesis in simple words for a ten y...'' exLong])
     = [SetSessions (Sessions [exFresh ''Explain photosynthesis in simple words for a ten y...'' exLong])]"
    by (simp_all add: change_def browser_stringify exEmptyChat_captured)
qed







lemma yes_answer_run:
  "effects (sendMessage (browser 100000) (exEnv exAnswer) ''yes'' None None exChat)
     = [SetSessions (Sessions [exTalk (exEarlier @ [exMessage ''m3'' ''yes'' User 2000]) 2000]),
        Fetch,
        SetSessions (Sessions [exTalk (exEarlier @ [exMessage ''m4'' ''Good.'' Assistant 9000]) 9001])]
   \<and> storedValue (sessionsHook (sendMessage (browser 100000) (exEnv exAnswer) ''yes'' None None exChat))
       = Sessions [exTalk (exEarlier @ [exMessage ''m4'' ''Good.'' Assistant 9000]) 9001]"
proof -
  have t: "trim ''yes'' \<noteq> []" by (simp add: yes_trim)
  have calls: "snd (retryApiCall (makeRequest (exEnv exAnswer)) MAX_RETRIES) = [Fetch]"
    by (simp add: retryApiCall_cases exEnv_fields exAnswer_def)
  have e: "effects (sendMessage (browser 100000) (exEnv exAnswer) ''yes'' None None exChat)
     = [SetSessions (Sessions [exTalk (exEarlier @ [exMessage ''m3'' ''yes'' User 2000]) 2000]),
        Fetch,
        SetSessions (Sessions [exTalk (exEarlier @ [exMessage ''m4'' ''Good.'' Assistant 9000]) 9001])]"
    unfolding sendMessage_effects_current [OF t exChat_current] yes_optimistic yes_settled_answer
      yes_changes calls
    by (simp add: exChat_def)
  have s: "storedValue (sessionsHook (sendMessage (browser 100000) (exEnv exAnswer) ''yes'' None None exChat))
             = Sessions [exTalk (exEarlier @ [exMessage ''m4'' ''Good.'' Assistant 9000]) 9001]"
    unfolding sendMessage_state [OF t] yes_settled_answer yes_changes by simp
  show ?thesis using e s by blast
qed

lemma yes_offline_run:
  "effects (sendMessage (browser 100000) (exEnv exOffline) ''yes'' None None exChat)
     = [SetSessions (Sessions [exTalk (exEarlier @ [exMessage ''m3'' ''yes'' User 2000]) 2000]),
        Fetch, Backoff 2000, Fetch, Backoff 4000, Fetch,
        SetSessions (Sessions [exTalk (exEarlier @ [errorMessageOf (exEnv exOffline)]) 9001])]
   \<and> map m_id (messagesOf ''s1'' (storedValue (sessionsHook
          (sendMessage (browser 100000) (exEnv exOffline) ''yes'' None None exChat))))
       = [''m1'', ''m2'', ''m4'']"
proof -
  have t: "trim ''yes'' \<noteq> []" by (simp add: yes_trim)
  have calls: "snd (retryApiCall (makeRequest (exEnv exOffline)) MAX_RETRIES)
                 = [Fetch, Backoff 2000, Fetch, Backoff 4000, Fetch]"
    by (simp add: retryApiCall_cases exEnv_fields exOffline_def)
  have e: "effects (sendMessage (browser 100000) (exEnv exOffline) ''yes'' None None exChat)
     = [SetSessions (Sessions [exTalk (exEarlier @ [exMessage ''m3'' ''yes'' User 2000]) 2000]),
        Fetch, Backoff 2000, Fetch, Backoff 4000, Fetch,
        SetSessions (Sessions [exTalk (exEarlier @ [errorMessageOf (exEnv exOffline)]) 9001])]"
    unfolding sendMessage_effects_current [OF t exChat_current] yes_optimistic yes_settled_offline
      yes_changes calls
    by (simp add: exChat_def)
  have s: "storedValue (sessionsHook (sendMessage (browser 100000) (exEnv exOffline) ''yes'' None None exChat))
             = Sessions [exTalk (exEarlier @ [errorMessageOf (exEnv exOffline)]) 9001]"
    unfolding sendMessage_state [OF t] yes_settled_offline yes_changes by simp
  show ?thesis
    unfolding s using e
    by (simp add: messagesOf_def elements_def exTalk_def exEarlier_def exMessage_def
          errorMessageOf_def exEnv_fields)
qed

lemma question_offline_run:
  "effects (sendMessage (browser 100000) (exEnv exOffline) ''What is 2+2?'' None None exEmptyChat)
     = [SetSessions (Sessions [exNew]), Settle 50,
        SetSessions (Sessions [exFresh ''What is 2+2?'' ''What is 2+2?'']),
        Fetch, Backoff 2000, Fetch, Backoff 4000, Fetch]
   \<and> storedValue (sessionsHook
          (sendMessage (browser 100000) (exEnv exOffline) ''What is 2+2?'' None None exEmptyChat))
       = Sessions [exFresh ''What is 2+2?'' ''What is 2+2?'']"
proof -
  have t: "trim ''What is 2+2?'' \<noteq> []" by (simp add: question_trim)
  have calls: "snd (retryApiCall (makeRequest (exEnv exOffline)) MAX_RETRIES)
                 = [Fetch, Backoff 2000, Fetch, Backoff 4000, Fetch]"
    by (simp add: retryApiCall_cases exEnv_fields exOffline_def)
  have e: "effects (sendMessage (browser 100000) (exEnv exOffline) ''What is 2+2?'' None None exEmptyChat)
     = [SetSessions (Sessions [exNew]), Settle 50,
        SetSessions (Sessions [exFresh ''What is 2+2?'' ''What is 2+2?'']),
        Fetch, Backoff 2000, Fetch, Backoff 4000, Fetch]"
    unfolding sendMessage_effects_new [OF t exEmptyChat_current] exEmptyChat_created
      question_optimistic new_settled new_changes calls
    by (simp add: exEmptyChat_def)
  have s: "storedValue (sessionsHook
          (sendMessage (browser 100000) (exEnv exOffline) ''What is 2+2?'' None None exEmptyChat))
       = Sessions [exFresh ''What is 2+2?'' ''What is 2+2?'']"
    unfolding sendMessage_state [OF t] question_optimistic new_settled new_changes by simp
  show ?thesis using e s by blast
qed


subsection \<open>Retries\<close>

text \<open>
  C3: \<open>retryApiCall\<close> with \<open>MAX_RETRIES = 2\<close> calls \<open>fetch\<close> once, and again only after a
  call that rejected: at most three calls, with a wait of 2000 ms before the second and of
  4000 ms before the third. A call that resolves ends the loop whatever the status of its
  response. These calls and waits are all the network effects of a send. When the first
  call resolves with a status outside 200 to 299, the send has made that one call only,
  and it fails: the error state holds the message of the exception that \<open>sendMessage\<close>
  throws for the response.
\<close>

theorem retry_policy:
  "retryApiCall requestFn MAX_RETRIES =
     (case requestFn 0 of
        Resolves response \<Rightarrow> (Inr response, [Fetch])
      | Rejects err0 \<Rightarrow>
          (case requestFn 1 of
             Resolves response \<Rightarrow> (Inr response, [Fetch, Backoff 2000, Fetch])
           | Rejects err1 \<Rightarrow>
               (case requestFn 2 of
                  Resolves response \<Rightarrow>
                    (Inr response, [Fetch, Backoff 2000, Fetch, Backoff 4000, Fetch])
                | Rejects err2 \<Rightarrow>
                    (Inl err2, [Fetch, Backoff 2000, Fetch, Backoff 4000, Fetch]))))
   \<and> length (filter (\<lambda>x. x = Fetch) (snd (retryApiCall requestFn MAX_RETRIES))) \<le> 1 + MAX_RETRIES
   \<and> (trim content \<noteq> [] \<longrightarrow>
        filter isNetwork (effects (sendMessage h e content subject difficulty c))
          = filter isNetwork (effects c) @ snd (retryApiCall (makeRequest e) MAX_RETRIES))
   \<and> (trim content \<noteq> [] \<longrightarrow> makeRequest e 0 = Resolves response \<longrightarrow> \<not> ok response \<longrightarrow>
        filter isNetwork (effects (sendMessage h e content subject difficulty c))
          = filter isNetwork (effects c) @ [Fetch]
        \<and> (\<exists>t. readResponse response = Inl (Error t)
                \<and> chatError (sendMessage h e content subject difficulty c) = Some t))"
proof -
  have count: "length (filter (\<lambda>x. x = Fetch) (snd (retryApiCall requestFn MAX_RETRIES))) \<le> 1 + MAX_RETRIES"
  proof -
    have "length (filter (\<lambda>x. x = Fetch) (snd (retryApiCall requestFn MAX_RETRIES))) \<le> 3"
      by (simp add: retryApiCall_cases split: fetched.splits)
    then show ?thesis by (simp add: MAX_RETRIES_def)
  qed
  have direct: "filter isNetwork (effects (sendMessage h e content subject difficulty c))
                  = filter isNetwork (effects c) @ [Fetch]
                \<and> (\<exists>t. readResponse response = Inl (Error t)
                        \<and> chatError (sendMessage h e content subject difficulty c) = Some t)"
    if blank: "trim content \<noteq> []" and first: "makeRequest e 0 = Resolves response"
      and bad: "\<not> ok response"
  proof -
    have call: "retryApiCall (makeRequest e) MAX_RETRIES = (Inr response, [Fetch])"
      using first by (simp add: retryApiCall_cases)
    obtain t where t: "readResponse response = Inl (Error t)"
      using readResponse_not_ok [OF bad] by blast
    have "outcome e = Inl (Error t)"
      by (simp add: outcome_def call t)
    then have "chatError (sendMessage h e content subject difficulty c) = Some t"
      by (simp add: sendMessage_chatError [OF blank])
    then show ?thesis
      using sendMessage_network [OF blank, of h e subject difficulty c] call t by simp
  qed
  show ?thesis
    using retryApiCall_cases [of requestFn] count sendMessage_network direct by blast
qed

theorem retry_policy_witness:
  "trim ''hello'' \<noteq> []
   \<and> makeRequest (exEnv exLimited) 0
       = Resolves \<lparr>r_status = 429, r_body = Body (Some ''Rate limit exceeded. Please try again later.'') None\<rparr>
   \<and> \<not> ok \<lparr>r_status = 429, r_body = Body (Some ''Rate limit exceeded. Please try again later.'') None\<rparr>
   \<and> retryApiCall exOffline MAX_RETRIES
       = (Inl (TypeError ''Failed to fetch''), [Fetch, Backoff 2000, Fetch, Backoff 4000, Fetch])
   \<and> filter isNetwork (effects (sendMessage (browser 100000) (exEnv exLimited) ''hello'' None None exChat))
       = [Fetch]
   \<and> chatError (sendMessage (browser 100000) (exEnv exLimited) ''hello'' None None exChat)
       = Some ''Rate limit exceeded. Please try again later.''"
proof -
  let ?r = "\<lparr>r_status = 429, r_body = Body (Some ''Rate limit exceeded. Please try again later.'') None\<rparr>"
  have a: "trim ''hello'' \<noteq> []" by code_simp
  have b: "makeRequest (exEnv exLimited) 0 = Resolves ?r" by (simp add: exEnv_def exLimited_def)
  have c: "\<not> ok ?r" by (simp add: ok_def)
  have d: "readResponse ?r = Inl (Error ''Rate limit exceeded. Please try again later.'')"
    by (simp add: readResponse_def ok_def)
  have f: "exOffline n = Rejects (TypeError ''Failed to fetch'')" for n
    by (simp add: exOffline_def)
  have g: "filter isNetwork (effects exChat) = []" by (simp add: exChat_def)
  note T = retry_policy [of exOffline "''hello''" "browser 100000" "exEnv exLimited" None None exChat ?r]
  note T1 = T [THEN conjunct1]
  note T4 = T [THEN conjunct2, THEN conjunct2, THEN conjunct2, rule_format, OF a b c]
  have "retryApiCall exOffline MAX_RETRIES
          = (Inl (TypeError ''Failed to fetch''), [Fetch, Backoff 2000, Fetch, Backoff 4000, Fetch])"
    using T1 by (simp add: f)
  moreover have "filter isNetwork (effects (sendMessage (browser 100000) (exEnv exLimited) ''hello'' None None exChat))
       = [Fetch]"
    using T4 [THEN conjunct1] g by simp
  moreover have "chatError (sendMessage (browser 100000) (exEnv exLimited) ''hello'' None None exChat)
       = Some ''Rate limit exceeded. Please try again later.''"
    using T4 [THEN conjunct2] d by auto
  ultimately show ?thesis using a b c by blast
qed


subsection \<open>The user message of a send\<close>

text \<open>
  C1 on the code, at an input where it does not hold. The current session holds a user
  message ``yes'' and a reply; the user sends ``yes'' again and the endpoint answers. The
  optimistic update sets the sessions to the captured ones with the new user message
  \<open>m3\<close> appended, before the call of \<open>fetch\<close>. The update of the success branch is applied
  to the captured sessions as well, which do not hold \<open>m3\<close>; its guard finds the earlier
  user message with the same content and leaves \<open>m3\<close> out. The session ends with the two
  old messages and the reply \<open>m4\<close>: the send has added no user message.
\<close>

theorem repeated_text_reply:
  "map m_id (messagesOf ''s1'' (storedValue (sessionsHook exChat))) = [''m1'', ''m2'']
   \<and> m_id (userMessageOf (exEnv exAnswer) ''yes'') = ''m3''
   \<and> effects (sendMessage (browser 100000) (exEnv exAnswer) ''yes'' None None exChat)
       = [SetSessions (Sessions [exTalk (exEarlier @ [exMessage ''m3'' ''yes'' User 2000]) 2000]),
          Fetch,
          SetSessions (Sessions [exTalk (exEarlier @ [exMessage ''m4'' ''Good.'' Assistant 9000]) 9001])]
   \<and> map m_id (messagesOf ''s1'' (storedValue (sessionsHook
          (sendMessage (browser 100000) (exEnv exAnswer) ''yes'' None None exChat))))
       = [''m1'', ''m2'', ''m4'']"
  using yes_answer_run
  by (simp add: messagesOf_def elements_def exChat_def exTalk_def exEarlier_def exMessage_def
        userMessageOf_def exEnv_fields)


text \<open>
  C2 on the code, at two inputs where it does not hold. First the same send with the
  network down: after the three calls the failure branch puts the apology \<open>m4\<close> behind the
  two old messages, and the user message \<open>m3\<close> of the optimistic update is gone. Second a
  send without a current session: the session \<open>s2\<close> is created and receives the user
  message, but the update of the failure branch, applied to the captured sessions, finds
  no session \<open>s2\<close> there and changes nothing, so no apology is appended.
\<close>

theorem failed_send_on_stale_sessions:
  "effects (sendMessage (browser 100000) (exEnv exOffline) ''yes'' None None exChat)
     = [SetSessions (Sessions [exTalk (exEarlier @ [exMessage ''m3'' ''yes'' User 2000]) 2000]),
        Fetch, Backoff 2000, Fetch, Backoff 4000, Fetch,
        SetSessions (Sessions [exTalk (exEarlier @ [errorMessageOf (exEnv exOffline)]) 9001])]
   \<and> map m_id (messagesOf ''s1'' (storedValue (sessionsHook
          (sendMessage (browser 100000) (exEnv exOffline) ''yes'' None None exChat))))
       = [''m1'', ''m2'', ''m4'']
   \<and> effects (sendMessage (browser 100000) (exEnv exOffline) ''What is 2+2?'' None None exEmptyChat)
       = [SetSessions (Sessions [exNew]), Settle 50,
          SetSessions (Sessions [exFresh ''What is 2+2?'' ''What is 2+2?'']),
          Fetch, Backoff 2000, Fetch, Backoff 4000, Fetch]
   \<and> map m_id (messagesOf ''s2'' (storedValue (sessionsHook
          (sendMessage (browser 100000) (exEnv exOffline) ''What is 2+2?'' None None exEmptyChat))))
       = [''m3'']"
  using yes_offline_run question_offline_run
  by (simp add: messagesOf_def elements_def exFresh_def exMessage_def)


subsection \<open>Cancelled sends\<close>






subsection \<open>The title of a session\<close>

text \<open>
  C7, as the code has it. In the value that the optimistic update of a send computes, the
  title of the targeted session is the first 50 characters of the text as it was typed,
  followed by three dots when the text is longer than 50 characters, if the session is
  new or had no message; a session that had a message keeps its title. That update
  precedes the calls of \<open>fetch\<close>.
\<close>

theorem first_message_title:
  "titleOf (target e c) (optimistic e content subject difficulty c)
     = Some (case find (\<lambda>session. s_id session = target e c) (elements (storedValue (sessionsHook c))) of
               None \<Rightarrow> firstTitle content
             | Some session \<Rightarrow> if s_messages session = [] then firstTitle content
                               else s_title session)
   \<and> firstTitle content = take 50 content @ (if 50 < length content then ''...'' else [])
   \<and> (trim content \<noteq> [] \<longrightarrow>
        (\<exists>before after.
            effects (sendMessage h e content subject difficulty c)
              = effects c @ before @ change h c (optimistic e content subject difficulty c)
                @ snd (retryApiCall (makeRequest e) MAX_RETRIES) @ after))"
proof -
  let ?i = "target e c"
  have title: "titleOf ?i (optimistic e content subject difficulty c)
     = Some (case find (\<lambda>session. s_id session = ?i) (elements (storedValue (sessionsHook c))) of
               None \<Rightarrow> firstTitle content
             | Some session \<Rightarrow> if s_messages session = [] then firstTitle content
                               else s_title session)"
  proof (cases "storedValue (sessionsHook c)")
    case (Other t)
    then show ?thesis
      by (simp add: titleOf_def optimistic_def addUserMessage_def elements_def)
  next
    case (Sessions ss)
    show ?thesis
    proof (cases "find (\<lambda>session. s_id session = ?i) ss")
      case None
      then have "\<not> list_ex (\<lambda>s. s_id s = ?i) ss" by (simp add: find_list_ex)
      then show ?thesis
        using Sessions None
        by (simp add: titleOf_def optimistic_def addUserMessage_def elements_def)
    next
      case (Some session)
      then have "list_ex (\<lambda>s. s_id s = ?i) ss" by (simp add: find_list_ex)
      then show ?thesis
        using Sessions Some
        by (simp add: titleOf_def optimistic_def addUserMessage_def elements_def find_map_update)
    qed
  qed
  have eff: "\<exists>before after.
            effects (sendMessage h e content subject difficulty c)
              = effects c @ before @ change h c (optimistic e content subject difficulty c)
                @ snd (retryApiCall (makeRequest e) MAX_RETRIES) @ after"
    if t: "trim content \<noteq> []"
  proof (cases "currentSession c")
    case None
    have "effects (sendMessage h e content subject difficulty c)
            = effects c @ (change h c (created e subject difficulty c) @ [Settle 50])
              @ change h c (optimistic e content subject difficulty c)
              @ snd (retryApiCall (makeRequest e) MAX_RETRIES) @ change h c (settled e content c)"
      by (simp add: sendMessage_effects_new [OF t None])
    then show ?thesis by blast
  next
    case (Some session)
    have "effects (sendMessage h e content subject difficulty c)
            = effects c @ [] @ change h c (optimistic e content subject difficulty c)
              @ snd (retryApiCall (makeRequest e) MAX_RETRIES) @ change h c (settled e content c)"
      by (simp add: sendMessage_effects_current [OF t Some])
    then show ?thesis by blast
  qed
  show ?thesis
    using title eff by (simp add: firstTitle_def)
qed

theorem first_message_title_witness:
  "trim exLong \<noteq> []
   \<and> titleOf (target (exEnv exAnswer) exEmptyChat) (optimistic (exEnv exAnswer) exLong None None exEmptyChat)
       = Some ''Explain photosynthesis in simple words for a ten y...''
   \<and> titleOf (target (exEnv exAnswer) exChat) (optimistic (exEnv exAnswer) ''why?'' None None exChat)
       = Some ''yes''"
proof -
  have t: "trim exLong \<noteq> []" unfolding exLong_trim by (simp add: exLong_def)
  have n: "find (\<lambda>session. s_id session = target (exEnv exAnswer) exEmptyChat)
             (elements (storedValue (sessionsHook exEmptyChat))) = None"
    by (simp add: exEmptyChat_captured elements_def)
  have y: "find (\<lambda>session. s_id session = target (exEnv exAnswer) exChat)
             (elements (storedValue (sessionsHook exChat))) = Some (exTalk exEarlier 1100)"
    by (simp add: exChat_captured elements_def exChat_target exTalk_def)
  have m: "s_messages (exTalk exEarlier 1100) \<noteq> []" "s_title (exTalk exEarlier 1100) = ''yes''"
    by (simp_all add: exTalk_def exEarlier_def)
  note T1 = first_message_title [of "exEnv exAnswer" exEmptyChat exLong None None "browser 100000"]
  note T2 = first_message_title [of "exEnv exAnswer" exChat "''why?''" None None "browser 100000"]
  have "titleOf (target (exEnv exAnswer) exEmptyChat) (optimistic (exEnv exAnswer) exLong None None exEmptyChat)
       = Some ''Explain photosynthesis in simple words for a ten y...''"
    using T1 [THEN conjunct1] unfolding n by (simp add: exLong_title)
  moreover have "titleOf (target (exEnv exAnswer) exChat) (optimistic (exEnv exAnswer) ''why?'' None None exChat)
       = Some ''yes''"
    using T2 [THEN conjunct1] unfolding y using m by simp
  ultimately show ?thesis using t by blast
qed


text \<open>
  The claim as stated bounds the title by 50 characters. A first message of 57 characters
  gives a title of 53: the first 50 and three dots.
\<close>

theorem long_title_counterexample:
  "map (\<lambda>session. (s_title session, map m_content (s_messages session)))
       (elements (storedValue (sessionsHook
          (sendMessage (browser 100000) (exEnv exAnswer) exLong None None exEmptyChat))))
     = [(''Explain photosynthesis in simple words for a ten y...'', [exLong])]
   \<and> length ''Explain photosynthesis in simple words for a ten y...'' = 53
   \<and> take 50 exLong = ''Explain photosynthesis in simple words for a ten y''"
proof -
  have t: "trim exLong \<noteq> []" unfolding exLong_trim by (simp add: exLong_def)
  have s: "storedValue (sessionsHook
          (sendMessage (browser 100000) (exEnv exAnswer) exLong None None exEmptyChat))
       = Sessions [exFresh ''Explain photosynthesis in simple words for a ten y...'' exLong]"
    unfolding sendMessage_state [OF t] exLong_optimistic new_settled new_changes by simp
  show ?thesis
    unfolding s by (simp add: elements_def exFresh_def exMessage_def exLong_def)
qed

end
